theory Spec2Isabelle
  imports Main "HOL-Library.Word"
begin

unbundle bit_operations_syntax

section \<open>Cookie codec (maint.go)\<close>

text \<open>
  \<^verbatim>\<open>type cookie uint64\<close>.  Go's \<^verbatim>\<open>int\<close> arguments are modelled as
  HOL integers; the conversion \<^verbatim>\<open>cookie(x)\<close> of a signed machine integer to
  \<^verbatim>\<open>uint64\<close> keeps the value modulo \<open>2 ^ 64\<close>, which is \<open>word_of_int\<close>.
  In Go \<^verbatim>\<open>&\<close> and \<^verbatim>\<open><<\<close> have the same precedence and associate to
  the left, so \<^verbatim>\<open>cookie(id)&0xffff<<48\<close> is \<^verbatim>\<open>(cookie(id)&0xffff)<<48\<close>.
  The accessors convert a value below \<open>2 ^ 16\<close> back to \<^verbatim>\<open>int\<close>, which is
  exact: \<open>uint\<close>.  Both revisions of maint.go define the codec identically.
\<close>

type_synonym cookie = "64 word"

definition icmpCookie :: "int \<Rightarrow> int \<Rightarrow> int \<Rightarrow> cookie" where
  "icmpCookie protocol ident seq =
     push_bit 48 (word_of_int ident AND 0xffff) OR push_bit 32 (word_of_int seq AND 0xffff)
       OR (word_of_int protocol AND 0xff)"

definition udpCookie :: "int \<Rightarrow> int \<Rightarrow> int \<Rightarrow> cookie" where
  "udpCookie protocol sport dport =
     push_bit 48 (word_of_int sport AND 0xffff) OR push_bit 32 (word_of_int dport AND 0xffff)
       OR (word_of_int protocol AND 0xff)"

definition icmpID :: "cookie \<Rightarrow> int" where
  "icmpID c = uint (drop_bit 48 c)"

definition icmpSeq :: "cookie \<Rightarrow> int" where
  "icmpSeq c = uint (drop_bit 48 (push_bit 16 c))"

definition udpSport :: "cookie \<Rightarrow> int" where
  "udpSport c = uint (drop_bit 48 c)"

definition udpDport :: "cookie \<Rightarrow> int" where
  "udpDport c = uint (drop_bit 48 (push_bit 16 c))"

text \<open>The method \<^verbatim>\<open>protocol()\<close> of \<^verbatim>\<open>cookie\<close>.\<close>

definition cookie_protocol :: "cookie \<Rightarrow> int" where
  "cookie_protocol c = uint (c AND 0xff)"

section \<open>ICMP messages and IP headers (golang.org/x/net, as the code uses them)\<close>

type_synonym byte = "8 word"
type_synonym bytes = "byte list"

text \<open>The protocol numbers of conn.go.\<close>

abbreviation ianaProtocolICMP :: int where "ianaProtocolICMP \<equiv> 1"
abbreviation ianaProtocolUDP :: int where "ianaProtocolUDP \<equiv> 17"
abbreviation ianaProtocolIPv6ICMP :: int where "ianaProtocolIPv6ICMP \<equiv> 58"

text \<open>
  \<^verbatim>\<open>icmp.Type\<close> is an interface implemented by \<^verbatim>\<open>ipv4.ICMPType\<close> and
  \<^verbatim>\<open>ipv6.ICMPType\<close>; two values are equal when both the dynamic type and the
  number agree.  \<^verbatim>\<open>Protocol()\<close> returns 1 for the first and 58 for the second.
\<close>

datatype icmp_Type = ICMPType4 int | ICMPType6 int

fun Protocol :: "icmp_Type \<Rightarrow> int" where
  "Protocol (ICMPType4 _) = ianaProtocolICMP"
| "Protocol (ICMPType6 _) = ianaProtocolIPv6ICMP"

abbreviation ipv4_ICMPTypeEchoReply :: icmp_Type where
  "ipv4_ICMPTypeEchoReply \<equiv> ICMPType4 0"
abbreviation ipv4_ICMPTypeDestinationUnreachable :: icmp_Type where
  "ipv4_ICMPTypeDestinationUnreachable \<equiv> ICMPType4 3"
abbreviation ipv4_ICMPTypeTimeExceeded :: icmp_Type where
  "ipv4_ICMPTypeTimeExceeded \<equiv> ICMPType4 11"
abbreviation ipv6_ICMPTypeDestinationUnreachable :: icmp_Type where
  "ipv6_ICMPTypeDestinationUnreachable \<equiv> ICMPType6 1"
abbreviation ipv6_ICMPTypeEchoReply :: icmp_Type where
  "ipv6_ICMPTypeEchoReply \<equiv> ICMPType6 129"

text \<open>
  \<^verbatim>\<open>icmp.MessageBody\<close>: the bodies the code inspects, each with the fields it
  reads (\<open>Echo\<close>: ID, Seq, Data; \<open>PacketTooBig\<close>: MTU, Data; \<open>ParamProb\<close>:
  Pointer, Data), any other body, and the nil body.
\<close>

datatype MessageBody =
    Echo int int bytes
  | DstUnreach bytes
  | PacketTooBig int bytes
  | TimeExceeded bytes
  | ParamProb int bytes
  | OtherBody bytes
  | NilBody

record Message =
  Type :: icmp_Type
  Code :: int
  Checksum :: int
  Body :: MessageBody

record ipv4_Header =
  h4_Version :: int
  h4_Len :: int
  h4_TOS :: int
  h4_TotalLen :: int
  h4_ID :: int
  h4_Flags :: int
  h4_FragOff :: int
  h4_TTL :: int
  h4_Protocol :: int
  h4_Checksum :: int
  h4_Src :: bytes
  h4_Dst :: bytes
  h4_Options :: bytes

record ipv6_Header =
  h6_Version :: int
  h6_TrafficClass :: int
  h6_FlowLabel :: int
  h6_PayloadLen :: int
  h6_NextHeader :: int
  h6_HopLimit :: int
  h6_Src :: bytes
  h6_Dst :: bytes

text \<open>An \<^verbatim>\<open>interface{}\<close> holding nil, an \<^verbatim>\<open>*ipv4.Header\<close> or an \<^verbatim>\<open>*ipv6.Header\<close>.\<close>

datatype ip_header = NoHeader | IPv4Header ipv4_Header | IPv6Header ipv6_Header

text \<open>
  Go \<^verbatim>\<open>error\<close> values: a \<^verbatim>\<open>net.Error\<close> with its \<^verbatim>\<open>Timeout()\<close> and
  \<^verbatim>\<open>Temporary()\<close> answers, any other error of a library (its text), and the
  error \<^verbatim>\<open>fmt.Errorf("ICMP error message too short: %v, %d", m.Type, m.Code)\<close>
  that \<open>parseICMPError\<close> builds.
\<close>

datatype go_error =
    NetError bool bool string
  | ErrorString string
  | ICMPErrorTooShort icmp_Type int

datatype net_Interface = NetInterface int string

text \<open>
  What the code calls outside the repository, taken as parameters:
  \<^verbatim>\<open>icmp.ParseMessage\<close>, \<^verbatim>\<open>icmp.ParseIPv4Header\<close>, \<^verbatim>\<open>ipv6.ParseHeader\<close>,
  \<^verbatim>\<open>runtime.GOOS\<close> and \<^verbatim>\<open>net.InterfaceByIndex\<close> (nil on error).
\<close>

record xnet =
  ParseMessage :: "int \<Rightarrow> bytes \<Rightarrow> go_error + Message"
  ParseIPv4Header :: "bytes \<Rightarrow> go_error + ipv4_Header"
  ParseHeader :: "bytes \<Rightarrow> go_error + ipv6_Header"
  GOOS :: string
  InterfaceByIndex :: "int \<Rightarrow> net_Interface option"

abbreviation ipv4_HeaderLen :: nat where "ipv4_HeaderLen \<equiv> 20"
abbreviation ipv6_HeaderLen :: nat where "ipv6_HeaderLen \<equiv> 40"

section \<open>The ICMP error parser (report.go)\<close>

text \<open>The type switch at the head of \<open>parseICMPError\<close>: the body's Data, or nil.\<close>

fun bodyData :: "MessageBody \<Rightarrow> bytes" where
  "bodyData (DstUnreach d) = d"
| "bodyData (PacketTooBig _ d) = d"
| "bodyData (TimeExceeded d) = d"
| "bodyData (ParamProb _ d) = d"
| "bodyData _ = []"

definition parseICMPError :: "xnet \<Rightarrow> Message \<Rightarrow> go_error + (ip_header \<times> bytes)" where
  "parseICMPError L m =
     (let b = bodyData (Body m) in
      if Protocol (Type m) = ianaProtocolICMP then
        (case ParseIPv4Header L b of
           Inl err \<Rightarrow> Inl err
         | Inr h \<Rightarrow>
             if length b < ipv4_HeaderLen + length (h4_Options h) + 8
             then Inl (ICMPErrorTooShort (Type m) (Code m))
             else Inr (IPv4Header h, drop (ipv4_HeaderLen + length (h4_Options h)) b))
      else if Protocol (Type m) = ianaProtocolIPv6ICMP then
        (case ParseHeader L b of
           Inl err \<Rightarrow> Inl err
         | Inr h \<Rightarrow>
             if length b < ipv6_HeaderLen + 8
             then Inl (ICMPErrorTooShort (Type m) (Code m))
             else Inr (IPv6Header h, drop ipv6_HeaderLen b))
      else Inr (NoHeader, b))"

fun parseOrigIP :: "ip_header \<Rightarrow> int" where
  "parseOrigIP (IPv4Header h) = h4_Protocol h"
| "parseOrigIP (IPv6Header h) = h6_NextHeader h"
| "parseOrigIP NoHeader = - 1"

definition parseOrigUDP :: "bytes \<Rightarrow> int \<times> int" where
  "parseOrigUDP b =
     (if length b < 8 then (- 1, - 1)
      else (push_bit 8 (uint (b ! 0)) OR uint (b ! 1), push_bit 8 (uint (b ! 2)) OR uint (b ! 3)))"

section \<open>The maintenance receiver (maint.go)\<close>

text \<open>
  src/maint.go holds two revisions of the receiver.  The later one (lines 187 to
  335, the cookie and the emit flag read with sync/atomic) is the one the
  specification describes; its definitions carry the source's names.  The earlier
  one (lines 18 to 169, both fields guarded by a \<^verbatim>\<open>sync.RWMutex\<close>) is embedded
  under the same names with the suffix \<open>_rw\<close>.
\<close>

text \<open>\<^verbatim>\<open>net.Addr\<close>: the address types the code switches on, and any other.\<close>

datatype Addr =
    IPNet bytes bytes
  | TCPAddr bytes int string
  | UDPAddr bytes int string
  | IPAddr bytes string
  | OtherAddr

text \<open>
  The control message of a read: none, an \<^verbatim>\<open>*ipv4.ControlMessage\<close> (TTL, Src,
  Dst, IfIndex) or an \<^verbatim>\<open>*ipv6.ControlMessage\<close> (TrafficClass, HopLimit, Src,
  Dst, IfIndex).
\<close>

datatype cmsg =
    NoControlMessage
  | ControlMessage4 int bytes bytes int
  | ControlMessage6 int int bytes bytes int

record conn =
  protocol :: int
  rawSocket :: bool
  sport :: int

record Report =
  Error :: "go_error option"
  Time :: nat
  Src :: bytes
  ICMP :: "Message option"
  OrigHeader :: ip_header
  OrigPayload :: bytes
  TC :: int
  Hops :: int
  Dst :: bytes
  Interface :: "net_Interface option"

text \<open>\<^verbatim>\<open>var r Report\<close>: the zero value.\<close>

definition zero_Report :: Report where
  "zero_Report =
     \<lparr>Error = None, Time = 0, Src = [], ICMP = None, OrigHeader = NoHeader, OrigPayload = [],
      TC = 0, Hops = 0, Dst = [], Interface = None\<rparr>"

text \<open>
  What \<open>c.readFrom(b)\<close> returned in one iteration: an error, or the payload, the
  IP header (if any), the control message (if any) and the peer address.  The
  earlier revision's \<open>readFrom\<close> returns no header; its model ignores that field.
\<close>

datatype read_result = ReadError go_error | ReadOK bytes ip_header cmsg Addr

text \<open>
  The outcome of one iteration of the \<^verbatim>\<open>for\<close> loop: how it ends (\<open>continue\<close>,
  \<open>return\<close>, or a run-time panic of a failed type assertion), the local variable
  \<open>r\<close> afterwards, and the copy \<open>*r\<close> handed to \<open>writeReport\<close>, if it was
  called.  No path calls \<open>writeReport\<close> twice.
\<close>

datatype control = Continue | Return | Panic

record step =
  ctl :: control
  rep :: Report
  handed :: "Report option"

definition wrote :: "control \<Rightarrow> Report \<Rightarrow> step" where
  "wrote k r = \<lparr>ctl = k, rep = r, handed = Some r\<rparr>"

definition quiet :: "control \<Rightarrow> Report \<Rightarrow> step" where
  "quiet k r = \<lparr>ctl = k, rep = r, handed = None\<rparr>"

text \<open>\<^verbatim>\<open>err.(net.Error); ok && (err.Timeout() || err.Temporary())\<close>\<close>

fun transient :: "go_error \<Rightarrow> bool" where
  "transient (NetError timeout temporary _) = (timeout \<or> temporary)"
| "transient _ = False"

text \<open>
  \<^verbatim>\<open>peer.(*net.UDPAddr).IP\<close> on a datagram socket, \<^verbatim>\<open>peer.(*net.IPAddr).IP\<close> on a
  raw one; \<open>None\<close> when the type assertion panics.
\<close>

definition peerIP :: "conn \<Rightarrow> Addr \<Rightarrow> bytes option" where
  "peerIP c peer =
     (if \<not> rawSocket c
      then (case peer of UDPAddr ip _ _ \<Rightarrow> Some ip | _ \<Rightarrow> None)
      else (case peer of IPAddr ip _ \<Rightarrow> Some ip | _ \<Rightarrow> None))"

text \<open>Lines 240 to 246: the type switch on the received IP header.\<close>

definition recvHeader :: "xnet \<Rightarrow> ip_header \<Rightarrow> Report \<Rightarrow> Report" where
  "recvHeader L h r =
     (case h of
        IPv4Header h4 \<Rightarrow>
          (let r1 = r\<lparr>TC := h4_TOS h4\<rparr>
           in if GOOS L = ''solaris'' then r1\<lparr>Hops := h4_TTL h4\<rparr> else r1)
      | _ \<Rightarrow> r)"

text \<open>Lines 247 to 261: the type switch on the control message.\<close>

definition recvControl :: "xnet \<Rightarrow> cmsg \<Rightarrow> Report \<Rightarrow> Report" where
  "recvControl L cm r =
     (case cm of
        ControlMessage4 ttl src dst ifindex \<Rightarrow>
          (let r1 = (if GOOS L \<noteq> ''solaris'' then r\<lparr>Hops := ttl\<rparr> else r)
           in r1\<lparr>Dst := dst, Interface := InterfaceByIndex L ifindex\<rparr>)
      | ControlMessage6 tclass hoplimit src dst ifindex \<Rightarrow>
          r\<lparr>TC := tclass, Hops := hoplimit, Dst := dst, Interface := InterfaceByIndex L ifindex\<rparr>
      | NoControlMessage \<Rightarrow> r)"

text \<open>
  Lines 270 to 311: the dispatch of a parsed message \<open>m\<close>, with \<open>mcookie\<close> the
  value that \<^verbatim>\<open>atomic.LoadUint64(&t.cookie)\<close> returned.
\<close>

definition dispatch :: "xnet \<Rightarrow> conn \<Rightarrow> cookie \<Rightarrow> Message \<Rightarrow> Report \<Rightarrow> step" where
  "dispatch L c mcookie m r0 =
     (let r = r0\<lparr>ICMP := Some m\<rparr> in
      if Type m = ipv4_ICMPTypeEchoReply \<or> Type m = ipv6_ICMPTypeEchoReply then
        (case Body m of
           Echo ident seq _ \<Rightarrow>
             if icmpCookie (protocol c) ident seq = mcookie \<or> GOOS L = ''linux'' \<and> \<not> rawSocket c
             then wrote Continue r else quiet Continue r
         | _ \<Rightarrow> quiet Panic r)
      else
        (case parseICMPError L m of
           Inl err \<Rightarrow> wrote Continue (r\<lparr>OrigHeader := NoHeader, OrigPayload := [], Error := Some err\<rparr>)
         | Inr (iph, payload) \<Rightarrow>
             (let r1 = r\<lparr>OrigHeader := iph, OrigPayload := payload\<rparr> in
              if parseOrigIP iph = ianaProtocolICMP \<or> parseOrigIP iph = ianaProtocolIPv6ICMP then
                (case ParseMessage L (Protocol (Type m)) payload of
                   Inl err \<Rightarrow> wrote Continue (r1\<lparr>Error := Some err\<rparr>)
                 | Inr m' \<Rightarrow>
                     (let cookie = (case Body m' of
                                      Echo ident seq _ \<Rightarrow> icmpCookie (protocol c) ident seq
                                    | _ \<Rightarrow> 0)
                      in if cookie = mcookie \<or> GOOS L = ''linux'' \<and> \<not> rawSocket c
                         then wrote Continue r1 else quiet Continue r1))
              else if parseOrigIP iph = ianaProtocolUDP then
                (let cookie = udpCookie ianaProtocolUDP (fst (parseOrigUDP payload))
                                (snd (parseOrigUDP payload))
                 in if cookie = mcookie then wrote Continue r1 else quiet Continue r1)
              else wrote Continue r1)))"

text \<open>Lines 223 to 312: one iteration of the loop of \<open>monitor\<close>.\<close>

definition monitor_step ::
  "xnet \<Rightarrow> conn \<Rightarrow> read_result \<Rightarrow> nat \<Rightarrow> cookie \<Rightarrow> Report \<Rightarrow> step" where
  "monitor_step L c rd now mcookie r =
     (case rd of
        ReadError err \<Rightarrow>
          wrote (if transient err then Continue else Return) (r\<lparr>Error := Some err\<rparr>)
      | ReadOK rb h cm peer \<Rightarrow>
          (let r1 = r\<lparr>Time := now\<rparr> in
           case peerIP c peer of
             None \<Rightarrow> quiet Panic r1
           | Some ip \<Rightarrow>
               (let r2 = recvControl L cm (recvHeader L h (r1\<lparr>Src := ip\<rparr>)) in
                case ParseMessage L (protocol c) rb of
                  Inl err \<Rightarrow> wrote Continue (r2\<lparr>Error := Some err\<rparr>)
                | Inr m \<Rightarrow> dispatch L c mcookie m r2)))"

subsection \<open>The earlier revision (maint.go lines 57 to 142)\<close>

text \<open>Lines 79 to 90: the type switch on the control message.\<close>

definition recvControl_rw :: "xnet \<Rightarrow> cmsg \<Rightarrow> Report \<Rightarrow> Report" where
  "recvControl_rw L cm r =
     (case cm of
        ControlMessage4 ttl src dst ifindex \<Rightarrow>
          r\<lparr>Hops := ttl, Dst := dst, Interface := InterfaceByIndex L ifindex\<rparr>
      | ControlMessage6 tclass hoplimit src dst ifindex \<Rightarrow>
          r\<lparr>Hops := hoplimit, Dst := dst, Interface := InterfaceByIndex L ifindex\<rparr>
      | NoControlMessage \<Rightarrow> r)"

text \<open>
  Lines 99 to 140.  \<open>mcookie\<close> is the copy of \<open>t.cookie\<close> taken under the read
  lock (lines 100 to 102); \<open>tcookie\<close> is the value of the field \<open>t.cookie\<close> when
  lines 131 and 137 read it again, without the lock.  The \<^verbatim>\<open>switch\<close> has no
  \<^verbatim>\<open>default\<close> case.
\<close>

definition dispatch_rw ::
  "xnet \<Rightarrow> conn \<Rightarrow> cookie \<Rightarrow> cookie \<Rightarrow> Message \<Rightarrow> Report \<Rightarrow> step" where
  "dispatch_rw L c mcookie tcookie m r0 =
     (let r = r0\<lparr>ICMP := Some m\<rparr> in
      if Type m = ipv4_ICMPTypeEchoReply \<or> Type m = ipv6_ICMPTypeEchoReply then
        (case Body m of
           Echo ident seq _ \<Rightarrow>
             if icmpCookie (protocol c) ident seq = mcookie \<or> GOOS L = ''linux'' \<and> \<not> rawSocket c
             then wrote Continue r else quiet Continue r
         | _ \<Rightarrow> quiet Panic r)
      else
        (case parseICMPError L m of
           Inl err \<Rightarrow> wrote Continue (r\<lparr>OrigHeader := NoHeader, OrigPayload := [], Error := Some err\<rparr>)
         | Inr (iph, payload) \<Rightarrow>
             (let r1 = r\<lparr>OrigHeader := iph, OrigPayload := payload\<rparr> in
              if parseOrigIP iph = ianaProtocolICMP \<or> parseOrigIP iph = ianaProtocolIPv6ICMP then
                (case ParseMessage L (Protocol (Type m)) payload of
                   Inl err \<Rightarrow> wrote Continue (r1\<lparr>Error := Some err\<rparr>)
                 | Inr m' \<Rightarrow>
                     (let cookie = (case Body m' of
                                      Echo ident seq _ \<Rightarrow> icmpCookie (protocol c) ident seq
                                    | _ \<Rightarrow> 0)
                      in if cookie = tcookie \<or> GOOS L = ''linux'' \<and> \<not> rawSocket c
                         then wrote Continue r1 else quiet Continue r1))
              else if parseOrigIP iph = ianaProtocolUDP then
                (let cookie = udpCookie ianaProtocolUDP (fst (parseOrigUDP payload))
                                (snd (parseOrigUDP payload))
                 in if cookie = tcookie then wrote Continue r1 else quiet Continue r1)
              else quiet Continue r1)))"

text \<open>Lines 62 to 141: one iteration of the loop of the earlier \<open>monitor\<close>.\<close>

definition monitor_step_rw ::
  "xnet \<Rightarrow> conn \<Rightarrow> read_result \<Rightarrow> nat \<Rightarrow> cookie \<Rightarrow> cookie \<Rightarrow> Report \<Rightarrow> step" where
  "monitor_step_rw L c rd now mcookie tcookie r =
     (case rd of
        ReadError err \<Rightarrow>
          wrote (if transient err then Continue else Return) (r\<lparr>Error := Some err\<rparr>)
      | ReadOK rb h cm peer \<Rightarrow>
          (let r1 = r\<lparr>Time := now\<rparr> in
           case peerIP c peer of
             None \<Rightarrow> quiet Panic r1
           | Some ip \<Rightarrow>
               (let r2 = recvControl_rw L cm (r1\<lparr>Src := ip\<rparr>) in
                case ParseMessage L (protocol c) rb of
                  Inl err \<Rightarrow> wrote Continue (r2\<lparr>Error := Some err\<rparr>)
                | Inr m \<Rightarrow> dispatch_rw L c mcookie tcookie m r2)))"

section \<open>The maintenance endpoint and the loop of the receiver\<close>

text \<open>
  \<^verbatim>\<open>type maint struct { cookie uint64; emitReport int32; report chan Report }\<close>.
  The channel is modelled by the sequence of the values sent on it.
\<close>

record maint =
  cookie :: cookie
  emitReport :: "32 word"
  report :: "Report list"

text \<open>
  The literal of \<open>NewTester\<close>:
  \<^verbatim>\<open>&maint{emitReport: 1, report: make(chan Report, 1)}\<close>.
\<close>

definition NewTester_maint :: maint where
  "NewTester_maint = \<lparr>cookie = 0, emitReport = 1, report = []\<rparr>"

definition setICMPCookie :: "maint \<Rightarrow> int \<Rightarrow> int \<Rightarrow> int \<Rightarrow> maint" where
  "setICMPCookie t p ident seq = t\<lparr>cookie := icmpCookie p ident seq\<rparr>"

definition setUDPCookie :: "maint \<Rightarrow> int \<Rightarrow> int \<Rightarrow> int \<Rightarrow> maint" where
  "setUDPCookie t p sp dp = t\<lparr>cookie := udpCookie p sp dp\<rparr>"

text \<open>\<^verbatim>\<open>emit := atomic.LoadInt32(&t.emitReport); if emit > 0 { t.report <- *r }\<close>\<close>

definition writeReport :: "maint \<Rightarrow> Report \<Rightarrow> maint" where
  "writeReport t r = (if 0 < sint (emitReport t) then t\<lparr>report := report t @ [r]\<rparr> else t)"

definition StartReport :: "maint \<Rightarrow> maint" where
  "StartReport t = t\<lparr>emitReport := 1\<rparr>"

definition StopReport :: "maint \<Rightarrow> maint" where
  "StopReport t = t\<lparr>emitReport := 0\<rparr>"

text \<open>
  The earlier revision: \<^verbatim>\<open>emitReport bool\<close>, set to \<^verbatim>\<open>true\<close> by the literal of
  \<open>NewTester\<close> in tester.go, read under \<^verbatim>\<open>reportMu\<close>.
\<close>

record maint_rw =
  cookie_rw :: cookie
  emitReport_rw :: bool
  report_rw :: "Report list"

definition NewTester_maint_rw :: maint_rw where
  "NewTester_maint_rw = \<lparr>cookie_rw = 0, emitReport_rw = True, report_rw = []\<rparr>"

definition writeReport_rw :: "maint_rw \<Rightarrow> Report \<Rightarrow> maint_rw" where
  "writeReport_rw t r = (if emitReport_rw t then t\<lparr>report_rw := report_rw t @ [r]\<rparr> else t)"

definition StartReport_rw :: "maint_rw \<Rightarrow> maint_rw" where
  "StartReport_rw t = t\<lparr>emitReport_rw := True\<rparr>"

definition StopReport_rw :: "maint_rw \<Rightarrow> maint_rw" where
  "StopReport_rw t = t\<lparr>emitReport_rw := False\<rparr>"

text \<open>
  The receiver runs beside the goroutines that call \<open>Probe\<close>, \<open>StartReport\<close> and
  \<open>StopReport\<close>.  A run is a sequence of events: a call of another goroutine
  that takes effect between two iterations, or a packet, which carries the calls
  that take effect during its iteration, after the load of the cookie and before
  the load of the emit flag in \<open>writeReport\<close>.
\<close>

datatype call =
    CallStartReport
  | CallStopReport
  | CallSetICMPCookie int int int
  | CallSetUDPCookie int int int

fun apply_call :: "maint \<Rightarrow> call \<Rightarrow> maint" where
  "apply_call t CallStartReport = StartReport t"
| "apply_call t CallStopReport = StopReport t"
| "apply_call t (CallSetICMPCookie p ident seq) = setICMPCookie t p ident seq"
| "apply_call t (CallSetUDPCookie p sp dp) = setUDPCookie t p sp dp"

record packet =
  pk_read :: read_result
  pk_now :: nat
  pk_during :: "call list"

datatype event = Call call | Packet packet

text \<open>One packet: the iteration, the calls during it, and \<open>writeReport\<close>.\<close>

definition receive :: "xnet \<Rightarrow> conn \<Rightarrow> packet \<Rightarrow> Report \<Rightarrow> maint \<Rightarrow> step \<times> maint" where
  "receive L c p r t =
     (let s = monitor_step L c (pk_read p) (pk_now p) (cookie t) r;
          t1 = foldl apply_call t (pk_during p)
      in (s, case handed s of None \<Rightarrow> t1 | Some x \<Rightarrow> writeReport t1 x))"

text \<open>
  The loop of \<open>monitor\<close> over the events of a run.  When the events are used up
  the receiver is still in the loop (blocked in \<open>readFrom\<close>): \<open>Continue\<close>.
\<close>

fun monitor_loop ::
  "xnet \<Rightarrow> conn \<Rightarrow> event list \<Rightarrow> Report \<Rightarrow> maint \<Rightarrow> control \<times> Report \<times> maint" where
  "monitor_loop L c [] r t = (Continue, r, t)"
| "monitor_loop L c (Call k # es) r t = monitor_loop L c es r (apply_call t k)"
| "monitor_loop L c (Packet p # es) r t =
     (case receive L c p r t of
        (s, t') \<Rightarrow>
          (case ctl s of
             Continue \<Rightarrow> monitor_loop L c es (rep s) t'
           | k \<Rightarrow> (k, rep s, t')))"

definition monitor :: "xnet \<Rightarrow> conn \<Rightarrow> event list \<Rightarrow> maint \<Rightarrow> control \<times> Report \<times> maint" where
  "monitor L c es t = monitor_loop L c es zero_Report t"

text \<open>No event of the run, and no call during a packet, is \<open>StartReport\<close>.\<close>

fun starts :: "event \<Rightarrow> bool" where
  "starts (Call k) = (k = CallStartReport)"
| "starts (Packet p) = (CallStartReport \<in> set (pk_during p))"

section \<open>Reachability (helper.go)\<close>

text \<open>
  The methods of Go's package net that \<open>reachable\<close> calls, taken as parameters:
  \<^verbatim>\<open>IP.IsMulticast\<close>, \<^verbatim>\<open>IPNet.Contains\<close> (the prefix given by its IP and its
  mask) and \<^verbatim>\<open>IP.Equal\<close>.
\<close>

record netpkg =
  IsMulticast :: "bytes \<Rightarrow> bool"
  Contains :: "bytes \<Rightarrow> bytes \<Rightarrow> bytes \<Rightarrow> bool"
  Equal :: "bytes \<Rightarrow> bytes \<Rightarrow> bool"

text \<open>The first type switch: \<open>ipn\<close> (nil unless the target is a prefix) and \<open>ip\<close>.\<close>

fun target :: "Addr \<Rightarrow> ((bytes \<times> bytes) option \<times> bytes) option" where
  "target (IPNet ip msk) = Some (Some (ip, msk), ip)"
| "target (TCPAddr ip _ _) = Some (None, ip)"
| "target (UDPAddr ip _ _) = Some (None, ip)"
| "target (IPAddr ip _) = Some (None, ip)"
| "target OtherAddr = None"

text \<open>The second type switch: the peer's IP, for the three types it accepts.\<close>

fun peer :: "Addr \<Rightarrow> bytes option" where
  "peer (TCPAddr ip _ _) = Some ip"
| "peer (UDPAddr ip _ _) = Some ip"
| "peer (IPAddr ip _) = Some ip"
| "peer _ = None"

definition reachable :: "netpkg \<Rightarrow> Addr \<Rightarrow> Addr \<Rightarrow> bool" where
  "reachable N tgt fm =
     (case target tgt of
        None \<Rightarrow> False
      | Some (ipn, ip) \<Rightarrow>
          if IsMulticast N ip then True
          else (case peer fm of
                  None \<Rightarrow> False
                | Some fip \<Rightarrow>
                    (case ipn of
                       Some (nip, msk) \<Rightarrow> Contains N nip msk fip
                     | None \<Rightarrow> Equal N ip fip)))"

section \<open>A model of the library calls\<close>

text \<open>
  The theorems below hold for every implementation of the library calls.  To
  evaluate the code at concrete packets, this section gives one implementation,
  after golang.org/x/net (icmp, ipv6) and Go's package net on a platform that
  keeps the IPv4 total length in network byte order.
\<close>

text \<open>\<^verbatim>\<open>binary.BigEndian.Uint16(b[i:i+2])\<close>\<close>

definition be16 :: "bytes \<Rightarrow> nat \<Rightarrow> int" where
  "be16 b i = push_bit 8 (uint (b ! i)) OR uint (b ! (i + 1))"

definition v4InV6Prefix :: bytes where
  "v4InV6Prefix = [0, 0, 0, 0, 0, 0, 0, 0, 0, 0, 0xff, 0xff]"

definition icmp_ParseIPv4Header :: "bytes \<Rightarrow> go_error + ipv4_Header" where
  "icmp_ParseIPv4Header b =
     (if length b < ipv4_HeaderLen then Inl (ErrorString ''header too short'')
      else
        (let hdrlen = nat (push_bit 2 (uint (b ! 0 AND 0x0f))) in
         if hdrlen > length b then Inl (ErrorString ''buffer too short'')
         else Inr
           \<lparr>h4_Version = uint (drop_bit 4 (b ! 0)),
            h4_Len = int hdrlen,
            h4_TOS = uint (b ! 1),
            h4_TotalLen = be16 b 2,
            h4_ID = be16 b 4,
            h4_Flags = drop_bit 13 (be16 b 6 AND 0xe000),
            h4_FragOff = be16 b 6 AND 0x1fff,
            h4_TTL = uint (b ! 8),
            h4_Protocol = uint (b ! 9),
            h4_Checksum = be16 b 10,
            h4_Src = v4InV6Prefix @ take 4 (drop 12 b),
            h4_Dst = v4InV6Prefix @ take 4 (drop 16 b),
            h4_Options = take (hdrlen - ipv4_HeaderLen) (drop ipv4_HeaderLen b)\<rparr>))"

definition ipv6_ParseHeader :: "bytes \<Rightarrow> go_error + ipv6_Header" where
  "ipv6_ParseHeader b =
     (if length b < ipv6_HeaderLen then Inl (ErrorString ''header too short'')
      else Inr
        \<lparr>h6_Version = drop_bit 4 (uint (b ! 0)),
         h6_TrafficClass = push_bit 4 (uint (b ! 0 AND 0x0f)) OR drop_bit 4 (uint (b ! 1)),
         h6_FlowLabel = push_bit 16 (uint (b ! 1 AND 0x0f)) OR push_bit 8 (uint (b ! 2)) OR uint (b ! 3),
         h6_PayloadLen = be16 b 4,
         h6_NextHeader = uint (b ! 6),
         h6_HopLimit = uint (b ! 7),
         h6_Src = take 16 (drop 8 b),
         h6_Dst = take 16 (drop 24 b)\<rparr>)"

text \<open>The body parsers of package icmp, on the bytes after the 4-byte ICMP header.\<close>

definition icmp_parseBody :: "icmp_Type \<Rightarrow> bytes \<Rightarrow> go_error + MessageBody" where
  "icmp_parseBody ty b =
     (if ty \<in> {ICMPType4 0, ICMPType4 8, ICMPType6 128, ICMPType6 129} then
        (if length b < 4 then Inl (ErrorString ''message too short'')
         else Inr (Echo (be16 b 0) (be16 b 2) (drop 4 b)))
      else if ty \<in> {ICMPType4 3, ICMPType6 1} then
        (if length b < 4 then Inl (ErrorString ''message too short'')
         else Inr (DstUnreach (drop 4 b)))
      else if ty \<in> {ICMPType4 11, ICMPType6 3} then
        (if length b < 4 then Inl (ErrorString ''message too short'')
         else Inr (TimeExceeded (drop 4 b)))
      else if ty = ICMPType6 2 then
        (if length b < 4 then Inl (ErrorString ''message too short'')
         else Inr (PacketTooBig (push_bit 16 (be16 b 0) OR be16 b 2) (drop 4 b)))
      else if ty \<in> {ICMPType4 12, ICMPType6 4} then
        (if length b < 4 then Inl (ErrorString ''message too short'')
         else Inr (ParamProb (if ty = ICMPType4 12 then uint (b ! 0)
                              else push_bit 16 (be16 b 0) OR be16 b 2) (drop 4 b)))
      else Inr (OtherBody b))"

definition icmp_ParseMessage :: "int \<Rightarrow> bytes \<Rightarrow> go_error + Message" where
  "icmp_ParseMessage proto b =
     (if length b < 4 then Inl (ErrorString ''message too short'')
      else if proto \<noteq> ianaProtocolICMP \<and> proto \<noteq> ianaProtocolIPv6ICMP
      then Inl (ErrorString ''invalid protocol'')
      else
        (let ty = (if proto = ianaProtocolICMP then ICMPType4 (uint (b ! 0))
                   else ICMPType6 (uint (b ! 0)))
         in case icmp_parseBody ty (drop 4 b) of
              Inl err \<Rightarrow> Inl err
            | Inr body \<Rightarrow> Inr \<lparr>Type = ty, Code = uint (b ! 1), Checksum = be16 b 2, Body = body\<rparr>))"

definition golang :: "string \<Rightarrow> xnet" where
  "golang os =
     \<lparr>ParseMessage = icmp_ParseMessage,
      ParseIPv4Header = icmp_ParseIPv4Header,
      ParseHeader = ipv6_ParseHeader,
      GOOS = os,
      InterfaceByIndex = (\<lambda>i. if i = 1 then Some (NetInterface 1 ''lo'') else None)\<rparr>"

definition IP_To4 :: "bytes \<Rightarrow> bytes option" where
  "IP_To4 ip =
     (if length ip = 4 then Some ip
      else if length ip = 16 \<and> take 12 ip = v4InV6Prefix then Some (drop 12 ip)
      else None)"

definition IP_IsMulticast :: "bytes \<Rightarrow> bool" where
  "IP_IsMulticast ip =
     (case IP_To4 ip of
        Some ip4 \<Rightarrow> ip4 ! 0 AND 0xf0 = 0xe0
      | None \<Rightarrow> length ip = 16 \<and> ip ! 0 = 0xff)"

definition IP_Equal :: "bytes \<Rightarrow> bytes \<Rightarrow> bool" where
  "IP_Equal ip x =
     (if length ip = length x then ip = x
      else if length ip = 4 \<and> length x = 16 then take 12 x = v4InV6Prefix \<and> ip = drop 12 x
      else if length ip = 16 \<and> length x = 4 then take 12 ip = v4InV6Prefix \<and> drop 12 ip = x
      else False)"

definition networkNumberAndMask :: "bytes \<Rightarrow> bytes \<Rightarrow> bytes \<times> bytes" where
  "networkNumberAndMask nip msk =
     (case (case IP_To4 nip of
              Some ip4 \<Rightarrow> Some ip4
            | None \<Rightarrow> if length nip \<noteq> 16 then None else Some nip) of
        None \<Rightarrow> ([], [])
      | Some ip \<Rightarrow>
          if length msk = 4 then (if length ip \<noteq> 4 then ([], []) else (ip, msk))
          else if length msk = 16 then (if length ip = 4 then (ip, drop 12 msk) else (ip, msk))
          else ([], []))"

definition IPNet_Contains :: "bytes \<Rightarrow> bytes \<Rightarrow> bytes \<Rightarrow> bool" where
  "IPNet_Contains nip msk x =
     (let nn = fst (networkNumberAndMask nip msk);
          m = snd (networkNumberAndMask nip msk);
          ip = (case IP_To4 x of Some x4 \<Rightarrow> x4 | None \<Rightarrow> x)
      in if length ip \<noteq> length nn then False
         else list_all (\<lambda>i. nn ! i AND m ! i = ip ! i AND m ! i) [0..<length ip])"

definition go_net :: netpkg where
  "go_net = \<lparr>IsMulticast = IP_IsMulticast, Contains = IPNet_Contains, Equal = IP_Equal\<rparr>"

text \<open>
  The wire form of an IP header (RFC 791, RFC 8200), which the library's parsers
  read back, and the headers that have one: every field within its width, the
  IPv4 header length equal to 20 plus the options, the options a multiple of four
  bytes, the IPv4 addresses in the 16-byte form of \<^verbatim>\<open>net.IPv4\<close>.
\<close>

definition byte_of :: "int \<Rightarrow> byte" where
  "byte_of x = word_of_int x"

definition valid6 :: "ipv6_Header \<Rightarrow> bool" where
  "valid6 h \<longleftrightarrow>
     0 \<le> h6_Version h \<and> h6_Version h < 16 \<and> 0 \<le> h6_TrafficClass h \<and> h6_TrafficClass h < 256
     \<and> 0 \<le> h6_FlowLabel h \<and> h6_FlowLabel h < 1048576
     \<and> 0 \<le> h6_PayloadLen h \<and> h6_PayloadLen h < 65536
     \<and> 0 \<le> h6_NextHeader h \<and> h6_NextHeader h < 256
     \<and> 0 \<le> h6_HopLimit h \<and> h6_HopLimit h < 256
     \<and> length (h6_Src h) = 16 \<and> length (h6_Dst h) = 16"

definition marshal6 :: "ipv6_Header \<Rightarrow> bytes" where
  "marshal6 h =
     [byte_of (h6_Version h * 16 + h6_TrafficClass h div 16),
      byte_of (h6_TrafficClass h mod 16 * 16 + h6_FlowLabel h div 65536),
      byte_of (h6_FlowLabel h div 256 mod 256),
      byte_of (h6_FlowLabel h mod 256),
      byte_of (h6_PayloadLen h div 256),
      byte_of (h6_PayloadLen h mod 256),
      byte_of (h6_NextHeader h),
      byte_of (h6_HopLimit h)] @ h6_Src h @ h6_Dst h"

definition valid4 :: "ipv4_Header \<Rightarrow> bool" where
  "valid4 h \<longleftrightarrow>
     0 \<le> h4_Version h \<and> h4_Version h < 16
     \<and> h4_Len h = 20 + int (length (h4_Options h))
     \<and> length (h4_Options h) mod 4 = 0 \<and> length (h4_Options h) \<le> 40
     \<and> 0 \<le> h4_TOS h \<and> h4_TOS h < 256
     \<and> 0 \<le> h4_TotalLen h \<and> h4_TotalLen h < 65536
     \<and> 0 \<le> h4_ID h \<and> h4_ID h < 65536
     \<and> 0 \<le> h4_Flags h \<and> h4_Flags h < 8
     \<and> 0 \<le> h4_FragOff h \<and> h4_FragOff h < 8192
     \<and> 0 \<le> h4_TTL h \<and> h4_TTL h < 256
     \<and> 0 \<le> h4_Protocol h \<and> h4_Protocol h < 256
     \<and> 0 \<le> h4_Checksum h \<and> h4_Checksum h < 65536
     \<and> length (h4_Src h) = 16 \<and> take 12 (h4_Src h) = v4InV6Prefix
     \<and> length (h4_Dst h) = 16 \<and> take 12 (h4_Dst h) = v4InV6Prefix"

definition marshal4 :: "ipv4_Header \<Rightarrow> bytes" where
  "marshal4 h =
     [byte_of (h4_Version h * 16 + h4_Len h div 4),
      byte_of (h4_TOS h),
      byte_of (h4_TotalLen h div 256), byte_of (h4_TotalLen h mod 256),
      byte_of (h4_ID h div 256), byte_of (h4_ID h mod 256),
      byte_of ((h4_Flags h * 8192 + h4_FragOff h) div 256),
      byte_of ((h4_Flags h * 8192 + h4_FragOff h) mod 256),
      byte_of (h4_TTL h),
      byte_of (h4_Protocol h),
      byte_of (h4_Checksum h div 256), byte_of (h4_Checksum h mod 256)]
     @ drop 12 (h4_Src h) @ drop 12 (h4_Dst h) @ h4_Options h"

section \<open>Sample endpoints and packets\<close>

text \<open>A raw and an unprivileged datagram ICMPv4 endpoint.\<close>

definition raw4 :: conn where
  "raw4 = \<lparr>protocol = ianaProtocolICMP, rawSocket = True, sport = 0\<rparr>"

definition dgram4 :: conn where
  "dgram4 = \<lparr>protocol = ianaProtocolICMP, rawSocket = False, sport = 0\<rparr>"

text \<open>An ICMPv4 Echo Reply with identifier 0xbeef, sequence number 1 and two bytes of data.\<close>

definition echo_reply4 :: bytes where
  "echo_reply4 = [0, 0, 0, 0, 0xbe, 0xef, 0, 1, 72, 73]"

text \<open>
  An IPv4 header without options (TTL 1, protocol 17, 10.0.0.1 to 8.8.8.8), the
  same header with protocol 6, a UDP header with source port 50000 and
  destination port 33434, and an IPv6 header with next header 17.
\<close>

definition inner4 :: bytes where
  "inner4 = [0x45, 0, 0, 0x1c, 0xab, 0xcd, 0, 0, 1, 17, 0, 0, 10, 0, 0, 1, 8, 8, 8, 8]"

definition inner4_tcp :: bytes where
  "inner4_tcp = [0x45, 0, 0, 0x28, 0xab, 0xcd, 0, 0, 1, 6, 0, 0, 10, 0, 0, 1, 8, 8, 8, 8]"

definition inner_udp :: bytes where
  "inner_udp = [0xc3, 0x50, 0x82, 0x9a, 0, 8, 0, 0]"

definition inner6 :: bytes where
  "inner6 = [0x60, 0, 0, 0, 0, 8, 17, 1,
     0x20, 1, 0x0d, 0xb8, 0, 0, 0, 0, 0, 0, 0, 0, 0, 0, 0, 1,
     0x20, 1, 0x0d, 0xb8, 0, 0, 0, 0, 0, 0, 0, 0, 0, 0, 0, 2]"

text \<open>What \<open>icmp_ParseIPv4Header\<close> and \<open>ipv6_ParseHeader\<close> read from these headers.\<close>

definition inner4_header :: ipv4_Header where
  "inner4_header =
     \<lparr>h4_Version = 4, h4_Len = 20, h4_TOS = 0, h4_TotalLen = 28, h4_ID = 0xabcd, h4_Flags = 0,
      h4_FragOff = 0, h4_TTL = 1, h4_Protocol = 17, h4_Checksum = 0,
      h4_Src = v4InV6Prefix @ [10, 0, 0, 1], h4_Dst = v4InV6Prefix @ [8, 8, 8, 8],
      h4_Options = []\<rparr>"

definition inner6_header :: ipv6_Header where
  "inner6_header =
     \<lparr>h6_Version = 6, h6_TrafficClass = 0, h6_FlowLabel = 0, h6_PayloadLen = 8,
      h6_NextHeader = 17, h6_HopLimit = 1,
      h6_Src = [0x20, 1, 0x0d, 0xb8, 0, 0, 0, 0, 0, 0, 0, 0, 0, 0, 0, 1],
      h6_Dst = [0x20, 1, 0x0d, 0xb8, 0, 0, 0, 0, 0, 0, 0, 0, 0, 0, 0, 2]\<rparr>"

text \<open>An ICMPv4 Time Exceeded message (type 11, code 0) around the given data.\<close>

definition time_exceeded4 :: "bytes \<Rightarrow> bytes" where
  "time_exceeded4 d = [11, 0, 0, 0, 0, 0, 0, 0] @ d"

text \<open>A read of the given payload on a raw socket, from 10.0.0.9, with no metadata.\<close>

definition raw_read :: "bytes \<Rightarrow> read_result" where
  "raw_read b = ReadOK b NoHeader NoControlMessage (IPAddr [10, 0, 0, 9] [])"

text \<open>A tester that has probed with identifier 0xbeef and sequence number 1.\<close>

definition probed :: maint where
  "probed = setICMPCookie NewTester_maint ianaProtocolICMP 0xbeef 1"

text \<open>The calls of \<open>Probe\<close> that store a cookie.\<close>

fun sets_cookie :: "call \<Rightarrow> bool" where
  "sets_cookie (CallSetICMPCookie _ _ _) = True"
| "sets_cookie (CallSetUDPCookie _ _ _) = True"
| "sets_cookie _ = False"

subsection \<open>Bit-level facts about the packing\<close>

lemma and_ffff: "(w :: cookie) AND 0xffff = take_bit 16 w"
proof -
  have "(0xffff :: cookie) = mask 16"
    by (simp add: mask_eq_exp_minus_1)
  then show ?thesis
    by (simp add: take_bit_eq_mask)
qed

lemma and_ff: "(w :: cookie) AND 0xff = take_bit 8 w"
proof -
  have "(0xff :: cookie) = mask 8"
    by (simp add: mask_eq_exp_minus_1)
  then show ?thesis
    by (simp add: take_bit_eq_mask)
qed

lemma icmpCookie_pack:
  "icmpCookie p i s =
     push_bit 48 (take_bit 16 (word_of_int i)) OR push_bit 32 (take_bit 16 (word_of_int s))
       OR take_bit 8 (word_of_int p)"
  by (simp add: icmpCookie_def and_ffff and_ff)

lemma udpCookie_is_icmpCookie: "udpCookie p a b = icmpCookie p a b"
  by (simp add: icmpCookie_def udpCookie_def)

lemma bit_icmpCookie:
  "bit (icmpCookie p i s) n \<longleftrightarrow>
     n < 8 \<and> bit p n \<or> 32 \<le> n \<and> n < 48 \<and> bit s (n - 32) \<or> 48 \<le> n \<and> n < 64 \<and> bit i (n - 48)"
  by (auto simp add: icmpCookie_pack bit_simps)

lemma icmpID_icmpCookie: "icmpID (icmpCookie p i s) = take_bit 16 i"
  unfolding icmpID_def
  by (rule bit_eqI) (auto simp add: bit_simps bit_icmpCookie)

lemma icmpSeq_icmpCookie: "icmpSeq (icmpCookie p i s) = take_bit 16 s"
  unfolding icmpSeq_def
  by (rule bit_eqI) (auto simp add: bit_simps bit_icmpCookie)

lemma cookie_protocol_icmpCookie: "cookie_protocol (icmpCookie p i s) = take_bit 8 p"
  unfolding cookie_protocol_def and_ff
  by (rule bit_eqI) (auto simp add: bit_simps bit_icmpCookie)

lemma icmpCookie_eq_iff:
  "icmpCookie p i s = icmpCookie p' i' s' \<longleftrightarrow>
     take_bit 16 i = take_bit 16 i' \<and> take_bit 16 s = take_bit 16 s' \<and> take_bit 8 p = take_bit 8 p'"
proof
  assume e: "icmpCookie p i s = icmpCookie p' i' s'"
  have "icmpID (icmpCookie p i s) = icmpID (icmpCookie p' i' s')"
    "icmpSeq (icmpCookie p i s) = icmpSeq (icmpCookie p' i' s')"
    "cookie_protocol (icmpCookie p i s) = cookie_protocol (icmpCookie p' i' s')"
    using e by simp_all
  then show "take_bit 16 i = take_bit 16 i' \<and> take_bit 16 s = take_bit 16 s'
      \<and> take_bit 8 p = take_bit 8 p'"
    by (simp add: icmpID_icmpCookie icmpSeq_icmpCookie cookie_protocol_icmpCookie)
next
  assume "take_bit 16 i = take_bit 16 i' \<and> take_bit 16 s = take_bit 16 s'
      \<and> take_bit 8 p = take_bit 8 p'"
  then show "icmpCookie p i s = icmpCookie p' i' s'"
    by (simp add: icmpCookie_pack take_bit_of_int)
qed

lemma mod_self_iff: "0 < (m::int) \<Longrightarrow> x mod m = x \<longleftrightarrow> 0 \<le> x \<and> x < m"
  by (metis mod_pos_pos_trivial pos_mod_bound pos_mod_sign)

section \<open>Claims about the cookie codec\<close>

text \<open>
  C7 (as stated): for every \<open>(protocol, id, seq)\<close> the cookie built by
  \<open>icmpCookie\<close> decomposes back to those values via \<open>icmpID\<close>, \<open>icmpSeq\<close> and
  \<open>protocol\<close>.  Go's \<^verbatim>\<open>int\<close> is wider than the 16-bit fields, and the
  identifier 65536 is masked to 0: the statement fails there.
\<close>

theorem cookie_roundtrip_counterexample:
  "icmpID (icmpCookie 1 65536 1) \<noteq> 65536"
  by (simp add: icmpID_icmpCookie)

text \<open>
  C7 (amended): the accessors return the identifier, the sequence number and the
  ports reduced modulo \<open>2 ^ 16\<close> and the protocol reduced modulo \<open>2 ^ 8\<close>; so the
  cookie decomposes back to \<open>(protocol, id, seq)\<close>, and likewise to
  \<open>(protocol, sport, dport)\<close>, exactly when the 16-bit arguments lie in
  \<open>0..65535\<close> and the protocol in \<open>0..255\<close>.
\<close>

theorem cookie_roundtrip:
  "icmpID (icmpCookie p i s) = i mod 2 ^ 16
   \<and> icmpSeq (icmpCookie p i s) = s mod 2 ^ 16
   \<and> cookie_protocol (icmpCookie p i s) = p mod 2 ^ 8
   \<and> udpSport (udpCookie p i s) = i mod 2 ^ 16
   \<and> udpDport (udpCookie p i s) = s mod 2 ^ 16
   \<and> cookie_protocol (udpCookie p i s) = p mod 2 ^ 8
   \<and> ((icmpID (icmpCookie p i s) = i \<and> icmpSeq (icmpCookie p i s) = s
        \<and> cookie_protocol (icmpCookie p i s) = p)
       = (0 \<le> i \<and> i < 2 ^ 16 \<and> 0 \<le> s \<and> s < 2 ^ 16 \<and> 0 \<le> p \<and> p < 2 ^ 8))
   \<and> ((udpSport (udpCookie p i s) = i \<and> udpDport (udpCookie p i s) = s
        \<and> cookie_protocol (udpCookie p i s) = p)
       = (0 \<le> i \<and> i < 2 ^ 16 \<and> 0 \<le> s \<and> s < 2 ^ 16 \<and> 0 \<le> p \<and> p < 2 ^ 8))"
proof -
  have a: "icmpID (icmpCookie p i s) = i mod 2 ^ 16"
    by (simp only: icmpID_icmpCookie take_bit_eq_mod)
  have b: "icmpSeq (icmpCookie p i s) = s mod 2 ^ 16"
    by (simp only: icmpSeq_icmpCookie take_bit_eq_mod)
  have c: "cookie_protocol (icmpCookie p i s) = p mod 2 ^ 8"
    by (simp only: cookie_protocol_icmpCookie take_bit_eq_mod)
  have d: "udpSport (udpCookie p i s) = i mod 2 ^ 16"
    "udpDport (udpCookie p i s) = s mod 2 ^ 16"
    "cookie_protocol (udpCookie p i s) = p mod 2 ^ 8"
    using a b c
    by (simp_all only: udpCookie_is_icmpCookie udpSport_def udpDport_def icmpID_def icmpSeq_def)
  have i: "(i mod 2 ^ 16 = i) = (0 \<le> i \<and> i < 2 ^ 16)"
    by (rule mod_self_iff) simp
  have s: "(s mod 2 ^ 16 = s) = (0 \<le> s \<and> s < 2 ^ 16)"
    by (rule mod_self_iff) simp
  have p: "(p mod 2 ^ 8 = p) = (0 \<le> p \<and> p < 2 ^ 8)"
    by (rule mod_self_iff) simp
  show ?thesis
    unfolding d a b c i s p by simp
qed

theorem cookie_roundtrip_witness:
  "icmpID (icmpCookie 58 48879 7) = 48879 \<and> icmpSeq (icmpCookie 58 48879 7) = 7
   \<and> cookie_protocol (icmpCookie 58 48879 7) = 58
   \<and> udpSport (udpCookie 17 50000 33434) = 50000 \<and> udpDport (udpCookie 17 50000 33434) = 33434
   \<and> cookie_protocol (udpCookie 17 50000 33434) = 17"
  using cookie_roundtrip [of 58 48879 7] cookie_roundtrip [of 17 50000 33434] by simp

text \<open>
  C10 (as stated): an ICMP cookie and a UDP cookie are equal exactly when \<open>id\<close>
  equals \<open>sport\<close>, \<open>seq\<close> equals \<open>dport\<close> and the protocol bytes agree.  The
  identifier 65536 and the source port 0 give the same cookie.
\<close>

theorem cookie_families_counterexample:
  "icmpCookie 1 65536 0 = udpCookie 1 0 0 \<and> (65536 :: int) \<noteq> 0"
  by (simp add: udpCookie_is_icmpCookie icmpCookie_eq_iff)

text \<open>
  C10 (amended): \<open>icmpCookie\<close> and \<open>udpCookie\<close> are the same packing function,
  first argument into bits 63..48, second into bits 47..32, protocol into bits
  7..0, all other bits zero; an ICMP cookie and a UDP cookie are equal exactly when
  \<open>id\<close> and \<open>sport\<close> agree modulo \<open>2 ^ 16\<close>, \<open>seq\<close> and \<open>dport\<close> agree modulo
  \<open>2 ^ 16\<close> and the protocols agree modulo \<open>2 ^ 8\<close>; so a cookie of protocol 1 or
  58 never equals a cookie of protocol 17.
\<close>

theorem cookie_families:
  "udpCookie p a b = icmpCookie p a b
   \<and> (\<forall>n. bit (icmpCookie p i s) n =
        (n < 8 \<and> bit p n \<or> 32 \<le> n \<and> n < 48 \<and> bit s (n - 32) \<or> 48 \<le> n \<and> n < 64 \<and> bit i (n - 48)))
   \<and> ((icmpCookie p i s = udpCookie p' a b)
       = (i mod 2 ^ 16 = a mod 2 ^ 16 \<and> s mod 2 ^ 16 = b mod 2 ^ 16 \<and> p mod 2 ^ 8 = p' mod 2 ^ 8))
   \<and> icmpCookie 1 i s \<noteq> udpCookie 17 a b
   \<and> icmpCookie 58 i s \<noteq> udpCookie 17 a b"
proof -
  have e: "(icmpCookie p i s = udpCookie p' a b)
       = (i mod 2 ^ 16 = a mod 2 ^ 16 \<and> s mod 2 ^ 16 = b mod 2 ^ 16 \<and> p mod 2 ^ 8 = p' mod 2 ^ 8)"
    unfolding udpCookie_is_icmpCookie icmpCookie_eq_iff take_bit_eq_mod by blast
  have n1: "icmpCookie 1 i s \<noteq> udpCookie 17 a b"
    by (simp add: udpCookie_is_icmpCookie icmpCookie_eq_iff)
  have n2: "icmpCookie 58 i s \<noteq> udpCookie 17 a b"
    by (simp add: udpCookie_is_icmpCookie icmpCookie_eq_iff)
  show ?thesis
    using e n1 n2 by (simp only: udpCookie_is_icmpCookie bit_icmpCookie simp_thms)
qed

theorem cookie_families_witness:
  "icmpCookie 17 50000 33434 = udpCookie 17 50000 33434
   \<and> icmpCookie 1 50000 33434 \<noteq> udpCookie 17 50000 33434"
proof -
  from cookie_families [of 17 50000 33434 50000 33434 17]
  have a: "udpCookie 17 50000 33434 = icmpCookie 17 50000 33434"
    by (rule conjunct1)
  from cookie_families [of 1 50000 33434 50000 33434 17]
  have b: "icmpCookie 1 50000 33434 \<noteq> udpCookie 17 50000 33434"
    by (elim conjE)
  show ?thesis
    using a b by simp
qed

section \<open>The library model on the samples\<close>

lemma parse_echo_reply4:
  "ParseMessage (golang os) ianaProtocolICMP echo_reply4 =
     Inr \<lparr>Type = ipv4_ICMPTypeEchoReply, Code = 0, Checksum = 0, Body = Echo 0xbeef 1 [72, 73]\<rparr>"
  by (simp add: golang_def icmp_ParseMessage_def icmp_parseBody_def echo_reply4_def be16_def)

lemma parse_inner4:
  "ParseIPv4Header (golang os) (inner4 @ inner_udp) = Inr inner4_header"
  by (simp add: golang_def icmp_ParseIPv4Header_def inner4_def inner_udp_def be16_def
      inner4_header_def)

lemma parse_inner4_tcp:
  "ParseIPv4Header (golang os) (inner4_tcp @ inner_udp) =
     Inr (inner4_header\<lparr>h4_TotalLen := 40, h4_Protocol := 6\<rparr>)"
  by (simp add: golang_def icmp_ParseIPv4Header_def inner4_tcp_def inner_udp_def be16_def
      inner4_header_def)

lemma parse_inner6:
  "ParseHeader (golang os) (inner6 @ inner_udp) = Inr inner6_header"
  by (simp add: golang_def ipv6_ParseHeader_def inner6_def inner_udp_def be16_def
      inner6_header_def)

lemma parse_time_exceeded4:
  "ParseMessage (golang os) ianaProtocolICMP (time_exceeded4 d) =
     Inr \<lparr>Type = ipv4_ICMPTypeTimeExceeded, Code = 0, Checksum = 0, Body = TimeExceeded d\<rparr>"
  by (simp add: golang_def icmp_ParseMessage_def icmp_parseBody_def time_exceeded4_def be16_def)

lemma parseOrigUDP_inner_udp: "parseOrigUDP inner_udp = (50000, 33434)"
  by (simp add: parseOrigUDP_def inner_udp_def)

lemma parse_inner4_alone: "ParseIPv4Header (golang os) inner4 = Inr inner4_header"
  by (simp add: golang_def icmp_ParseIPv4Header_def inner4_def be16_def inner4_header_def)

lemma parse_inner4_cut:
  "ParseIPv4Header (golang os) (take 10 inner4) = Inl (ErrorString ''header too short'')"
  by (simp add: golang_def icmp_ParseIPv4Header_def inner4_def)

lemma parse_inner6_alone: "ParseHeader (golang os) inner6 = Inr inner6_header"
  by (simp add: golang_def ipv6_ParseHeader_def inner6_def be16_def inner6_header_def)

lemma sample_lengths [simp]:
  "length inner4 = 20" "length inner4_tcp = 20" "length inner_udp = 8" "length inner6 = 40"
  by (simp_all add: inner4_def inner4_tcp_def inner_udp_def inner6_def)

lemma inner4_header_simps [simp]:
  "h4_Options inner4_header = []" "h4_Protocol inner4_header = 17"
  by (simp_all add: inner4_header_def)

lemma peerIP_raw4: "peerIP raw4 (IPAddr ip z) = Some ip"
  by (simp add: peerIP_def raw4_def)

lemma peerIP_dgram4: "peerIP dgram4 (UDPAddr ip p z) = Some ip"
  by (simp add: peerIP_def dgram4_def)

lemma conn_simps [simp]:
  "protocol raw4 = 1" "rawSocket raw4" "protocol dgram4 = 1" "\<not> rawSocket dgram4"
  by (simp_all add: raw4_def dgram4_def)

lemma GOOS_golang [simp]: "GOOS (golang os) = os"
  by (simp add: golang_def)

lemma parse_too_short:
  "ParseMessage (golang os) p [0, 0] = Inl (ErrorString ''message too short'')"
  by (simp add: golang_def icmp_ParseMessage_def)

lemma probed_simps [simp]:
  "cookie probed = icmpCookie 1 0xbeef 1" "emitReport probed = 1" "report probed = []"
  by (simp_all add: probed_def setICMPCookie_def NewTester_maint_def)

lemma error_inner_tcp:
  "parseICMPError (golang os)
     \<lparr>Type = ipv4_ICMPTypeTimeExceeded, Code = 0, Checksum = 0,
      Body = TimeExceeded (inner4_tcp @ inner_udp)\<rparr>
   = Inr (IPv4Header (inner4_header\<lparr>h4_TotalLen := 40, h4_Protocol := 6\<rparr>), inner_udp)"
  by (simp add: parseICMPError_def parse_inner4_tcp)

lemma error_inner_udp:
  "parseICMPError (golang os)
     \<lparr>Type = ipv4_ICMPTypeTimeExceeded, Code = 0, Checksum = 0,
      Body = TimeExceeded (inner4 @ inner_udp)\<rparr>
   = Inr (IPv4Header inner4_header, inner_udp)"
  by (simp add: parseICMPError_def parse_inner4)

lemma udp_cookies_differ: "udpCookie 17 50000 33434 \<noteq> udpCookie 17 50000 33435"
  by (simp add: udpCookie_is_icmpCookie icmpCookie_eq_iff)

section \<open>The branches of the receiver\<close>

lemma step_simps [simp]:
  "ctl (wrote k r) = k" "rep (wrote k r) = r" "handed (wrote k r) = Some r"
  "ctl (quiet k r) = k" "rep (quiet k r) = r" "handed (quiet k r) = None"
  by (simp_all add: wrote_def quiet_def)

lemma dispatch_echo_reply:
  assumes "Type m = ipv4_ICMPTypeEchoReply \<or> Type m = ipv6_ICMPTypeEchoReply"
    and "Body m = Echo ident seq d"
  shows "dispatch L c mcookie m r =
     (if icmpCookie (protocol c) ident seq = mcookie \<or> GOOS L = ''linux'' \<and> \<not> rawSocket c
      then wrote Continue (r\<lparr>ICMP := Some m\<rparr>) else quiet Continue (r\<lparr>ICMP := Some m\<rparr>))"
  using assms by (auto simp add: dispatch_def Let_def)

lemma dispatch_rw_echo_reply:
  assumes "Type m = ipv4_ICMPTypeEchoReply \<or> Type m = ipv6_ICMPTypeEchoReply"
    and "Body m = Echo ident seq d"
  shows "dispatch_rw L c mcookie tcookie m r =
     (if icmpCookie (protocol c) ident seq = mcookie \<or> GOOS L = ''linux'' \<and> \<not> rawSocket c
      then wrote Continue (r\<lparr>ICMP := Some m\<rparr>) else quiet Continue (r\<lparr>ICMP := Some m\<rparr>))"
  using assms by (auto simp add: dispatch_rw_def Let_def)

lemma monitor_step_parsed:
  assumes "peerIP c pr = Some ip" and "ParseMessage L (protocol c) rb = Inr m"
  shows "monitor_step L c (ReadOK rb h cm pr) now mcookie r =
     dispatch L c mcookie m (recvControl L cm (recvHeader L h (r\<lparr>Time := now, Src := ip\<rparr>)))"
  using assms by (simp add: monitor_step_def Let_def)

lemma monitor_step_rw_parsed:
  assumes "peerIP c pr = Some ip" and "ParseMessage L (protocol c) rb = Inr m"
  shows "monitor_step_rw L c (ReadOK rb h cm pr) now mcookie tcookie r =
     dispatch_rw L c mcookie tcookie m (recvControl_rw L cm (r\<lparr>Time := now, Src := ip\<rparr>))"
  using assms by (simp add: monitor_step_rw_def Let_def)

lemma monitor_step_unparsed:
  assumes "peerIP c pr = Some ip" and "ParseMessage L (protocol c) rb = Inl err"
  shows "monitor_step L c (ReadOK rb h cm pr) now mcookie r =
     wrote Continue ((recvControl L cm (recvHeader L h (r\<lparr>Time := now, Src := ip\<rparr>)))\<lparr>Error := Some err\<rparr>)"
  using assms by (simp add: monitor_step_def Let_def)

lemma monitor_step_rw_unparsed:
  assumes "peerIP c pr = Some ip" and "ParseMessage L (protocol c) rb = Inl err"
  shows "monitor_step_rw L c (ReadOK rb h cm pr) now mcookie tcookie r =
     wrote Continue ((recvControl_rw L cm (r\<lparr>Time := now, Src := ip\<rparr>))\<lparr>Error := Some err\<rparr>)"
  using assms by (simp add: monitor_step_rw_def Let_def)

lemma dispatch_default:
  assumes "Type m \<noteq> ipv4_ICMPTypeEchoReply" and "Type m \<noteq> ipv6_ICMPTypeEchoReply"
    and "parseICMPError L m = Inr (iph, payload)"
    and "parseOrigIP iph \<noteq> ianaProtocolICMP" and "parseOrigIP iph \<noteq> ianaProtocolIPv6ICMP"
    and "parseOrigIP iph \<noteq> ianaProtocolUDP"
  shows "dispatch L c mcookie m r =
     wrote Continue (r\<lparr>ICMP := Some m, OrigHeader := iph, OrigPayload := payload\<rparr>)"
  using assms by (simp add: dispatch_def Let_def)

lemma dispatch_rw_default:
  assumes "Type m \<noteq> ipv4_ICMPTypeEchoReply" and "Type m \<noteq> ipv6_ICMPTypeEchoReply"
    and "parseICMPError L m = Inr (iph, payload)"
    and "parseOrigIP iph \<noteq> ianaProtocolICMP" and "parseOrigIP iph \<noteq> ianaProtocolIPv6ICMP"
    and "parseOrigIP iph \<noteq> ianaProtocolUDP"
  shows "dispatch_rw L c mcookie tcookie m r =
     quiet Continue (r\<lparr>ICMP := Some m, OrigHeader := iph, OrigPayload := payload\<rparr>)"
  using assms by (simp add: dispatch_rw_def Let_def)

lemma dispatch_udp:
  assumes "Type m \<noteq> ipv4_ICMPTypeEchoReply" and "Type m \<noteq> ipv6_ICMPTypeEchoReply"
    and "parseICMPError L m = Inr (iph, payload)"
    and "parseOrigIP iph = ianaProtocolUDP"
  shows "dispatch L c mcookie m r =
     (if udpCookie ianaProtocolUDP (fst (parseOrigUDP payload)) (snd (parseOrigUDP payload)) = mcookie
      then wrote Continue (r\<lparr>ICMP := Some m, OrigHeader := iph, OrigPayload := payload\<rparr>)
      else quiet Continue (r\<lparr>ICMP := Some m, OrigHeader := iph, OrigPayload := payload\<rparr>))"
  using assms by (simp add: dispatch_def Let_def)

lemma dispatch_rw_udp:
  assumes "Type m \<noteq> ipv4_ICMPTypeEchoReply" and "Type m \<noteq> ipv6_ICMPTypeEchoReply"
    and "parseICMPError L m = Inr (iph, payload)"
    and "parseOrigIP iph = ianaProtocolUDP"
  shows "dispatch_rw L c mcookie tcookie m r =
     (if udpCookie ianaProtocolUDP (fst (parseOrigUDP payload)) (snd (parseOrigUDP payload)) = tcookie
      then wrote Continue (r\<lparr>ICMP := Some m, OrigHeader := iph, OrigPayload := payload\<rparr>)
      else quiet Continue (r\<lparr>ICMP := Some m, OrigHeader := iph, OrigPayload := payload\<rparr>))"
  using assms by (simp add: dispatch_rw_def Let_def)

lemma recv_keeps [simp]:
  "Error (recvHeader L h r) = Error r" "OrigHeader (recvHeader L h r) = OrigHeader r"
  "OrigPayload (recvHeader L h r) = OrigPayload r"
  "Error (recvControl L cm r) = Error r" "OrigHeader (recvControl L cm r) = OrigHeader r"
  "OrigPayload (recvControl L cm r) = OrigPayload r"
  "Error (recvControl_rw L cm r) = Error r" "OrigHeader (recvControl_rw L cm r) = OrigHeader r"
  "OrigPayload (recvControl_rw L cm r) = OrigPayload r"
  by (simp_all add: recvHeader_def recvControl_def recvControl_rw_def Let_def
      split: ip_header.split cmsg.split)

lemma recv_nothing [simp]:
  "recvHeader L NoHeader r = r" "recvControl L NoControlMessage r = r"
  "recvControl_rw L NoControlMessage r = r"
  by (simp_all add: recvHeader_def recvControl_def recvControl_rw_def)

subsection \<open>The receiver on the samples\<close>

lemma step_short:
  "monitor_step (golang os) raw4 (raw_read [0, 0]) now mcookie r =
     wrote Continue (r\<lparr>Time := now, Src := [10, 0, 0, 9], Error := Some (ErrorString ''message too short'')\<rparr>)"
  unfolding raw_read_def
  by (subst monitor_step_unparsed [OF peerIP_raw4 parse_too_short]) simp

lemma step_rw_short:
  "monitor_step_rw (golang os) raw4 (raw_read [0, 0]) now mcookie tcookie r =
     wrote Continue (r\<lparr>Time := now, Src := [10, 0, 0, 9], Error := Some (ErrorString ''message too short'')\<rparr>)"
  unfolding raw_read_def
  by (subst monitor_step_rw_unparsed [OF peerIP_raw4 parse_too_short]) simp

lemma step_echo:
  "monitor_step (golang os) raw4 (raw_read echo_reply4) now (icmpCookie 1 0xbeef 1) r =
     wrote Continue (r\<lparr>Time := now, Src := [10, 0, 0, 9],
       ICMP := Some \<lparr>Type = ipv4_ICMPTypeEchoReply, Code = 0, Checksum = 0, Body = Echo 0xbeef 1 [72, 73]\<rparr>\<rparr>)"
  unfolding raw_read_def
  by (subst monitor_step_parsed [OF peerIP_raw4, where m =
        "\<lparr>Type = ipv4_ICMPTypeEchoReply, Code = 0, Checksum = 0, Body = Echo 0xbeef 1 [72, 73]\<rparr>"])
    (simp_all add: parse_echo_reply4 dispatch_echo_reply [where ident = "0xbeef" and seq = 1 and d = "[72, 73]"])

lemma step_rw_echo:
  "monitor_step_rw (golang os) raw4 (raw_read echo_reply4) now (icmpCookie 1 0xbeef 1) tcookie r =
     wrote Continue (r\<lparr>Time := now, Src := [10, 0, 0, 9],
       ICMP := Some \<lparr>Type = ipv4_ICMPTypeEchoReply, Code = 0, Checksum = 0, Body = Echo 0xbeef 1 [72, 73]\<rparr>\<rparr>)"
  unfolding raw_read_def
  by (subst monitor_step_rw_parsed [OF peerIP_raw4, where m =
        "\<lparr>Type = ipv4_ICMPTypeEchoReply, Code = 0, Checksum = 0, Body = Echo 0xbeef 1 [72, 73]\<rparr>"])
    (simp_all add: parse_echo_reply4 dispatch_rw_echo_reply [where ident = "0xbeef" and seq = 1 and d = "[72, 73]"])

lemma step_inner_tcp:
  "monitor_step (golang os) raw4 (raw_read (time_exceeded4 (inner4_tcp @ inner_udp))) now mcookie r =
     wrote Continue (r\<lparr>Time := now, Src := [10, 0, 0, 9],
       ICMP := Some \<lparr>Type = ipv4_ICMPTypeTimeExceeded, Code = 0, Checksum = 0,
         Body = TimeExceeded (inner4_tcp @ inner_udp)\<rparr>,
       OrigHeader := IPv4Header (inner4_header\<lparr>h4_TotalLen := 40, h4_Protocol := 6\<rparr>),
       OrigPayload := inner_udp\<rparr>)"
  unfolding raw_read_def
  by (subst monitor_step_parsed [OF peerIP_raw4, where m =
        "\<lparr>Type = ipv4_ICMPTypeTimeExceeded, Code = 0, Checksum = 0,
          Body = TimeExceeded (inner4_tcp @ inner_udp)\<rparr>"])
    (simp_all add: parse_time_exceeded4 dispatch_default [OF _ _ error_inner_tcp])

lemma step_rw_inner_tcp:
  "monitor_step_rw (golang os) raw4 (raw_read (time_exceeded4 (inner4_tcp @ inner_udp))) now
      mcookie tcookie r =
     quiet Continue (r\<lparr>Time := now, Src := [10, 0, 0, 9],
       ICMP := Some \<lparr>Type = ipv4_ICMPTypeTimeExceeded, Code = 0, Checksum = 0,
         Body = TimeExceeded (inner4_tcp @ inner_udp)\<rparr>,
       OrigHeader := IPv4Header (inner4_header\<lparr>h4_TotalLen := 40, h4_Protocol := 6\<rparr>),
       OrigPayload := inner_udp\<rparr>)"
  unfolding raw_read_def
  by (subst monitor_step_rw_parsed [OF peerIP_raw4, where m =
        "\<lparr>Type = ipv4_ICMPTypeTimeExceeded, Code = 0, Checksum = 0,
          Body = TimeExceeded (inner4_tcp @ inner_udp)\<rparr>"])
    (simp_all add: parse_time_exceeded4 dispatch_rw_default [OF _ _ error_inner_tcp])

lemma step_rw_inner_udp:
  "monitor_step_rw (golang os) raw4 (raw_read (time_exceeded4 (inner4 @ inner_udp))) now
      mcookie tcookie r =
     (if udpCookie 17 50000 33434 = tcookie then wrote Continue else quiet Continue)
       (r\<lparr>Time := now, Src := [10, 0, 0, 9],
       ICMP := Some \<lparr>Type = ipv4_ICMPTypeTimeExceeded, Code = 0, Checksum = 0,
         Body = TimeExceeded (inner4 @ inner_udp)\<rparr>,
       OrigHeader := IPv4Header inner4_header, OrigPayload := inner_udp\<rparr>)"
  unfolding raw_read_def
  by (subst monitor_step_rw_parsed [OF peerIP_raw4, where m =
        "\<lparr>Type = ipv4_ICMPTypeTimeExceeded, Code = 0, Checksum = 0,
          Body = TimeExceeded (inner4 @ inner_udp)\<rparr>"])
    (simp_all add: parse_time_exceeded4 dispatch_rw_udp [OF _ _ error_inner_udp]
      parseOrigUDP_inner_udp)

lemma step_inner_udp:
  "monitor_step (golang os) raw4 (raw_read (time_exceeded4 (inner4 @ inner_udp))) now mcookie r =
     (if udpCookie 17 50000 33434 = mcookie then wrote Continue else quiet Continue)
       (r\<lparr>Time := now, Src := [10, 0, 0, 9],
       ICMP := Some \<lparr>Type = ipv4_ICMPTypeTimeExceeded, Code = 0, Checksum = 0,
         Body = TimeExceeded (inner4 @ inner_udp)\<rparr>,
       OrigHeader := IPv4Header inner4_header, OrigPayload := inner_udp\<rparr>)"
  unfolding raw_read_def
  by (subst monitor_step_parsed [OF peerIP_raw4, where m =
        "\<lparr>Type = ipv4_ICMPTypeTimeExceeded, Code = 0, Checksum = 0,
          Body = TimeExceeded (inner4 @ inner_udp)\<rparr>"])
    (simp_all add: parse_time_exceeded4 dispatch_udp [OF _ _ error_inner_udp]
      parseOrigUDP_inner_udp)

section \<open>Echo Reply\<close>

text \<open>
  C1: for a received packet that parses as an ICMP Echo Reply (IPv4 or IPv6), the
  receiver hands a report to \<open>writeReport\<close> if and only if
  \<open>icmpCookie (protocol c) id seq\<close> equals the cookie loaded for this packet, or
  the socket is not raw and the platform is Linux; otherwise nothing is handed
  over; in both cases the loop continues.  Both revisions of \<open>monitor\<close> do so.
  With the emit flag set and no concurrent call, the channel receives a report
  exactly under that condition.
\<close>

theorem echo_reply_emitted:
  assumes "peerIP c pr = Some ip"
    and "ParseMessage L (protocol c) rb = Inr m"
    and "Type m = ipv4_ICMPTypeEchoReply \<or> Type m = ipv6_ICMPTypeEchoReply"
    and "Body m = Echo ident seq d"
  shows "ctl (monitor_step L c (ReadOK rb h cm pr) now mcookie r) = Continue
    \<and> (handed (monitor_step L c (ReadOK rb h cm pr) now mcookie r) \<noteq> None)
        = (icmpCookie (protocol c) ident seq = mcookie \<or> \<not> rawSocket c \<and> GOOS L = ''linux'')
    \<and> (handed (monitor_step L c (ReadOK rb h cm pr) now mcookie r) \<noteq> None \<longrightarrow>
         handed (monitor_step L c (ReadOK rb h cm pr) now mcookie r)
           = Some (rep (monitor_step L c (ReadOK rb h cm pr) now mcookie r)))
    \<and> ICMP (rep (monitor_step L c (ReadOK rb h cm pr) now mcookie r)) = Some m
    \<and> ctl (monitor_step_rw L c (ReadOK rb h cm pr) now mcookie tcookie r) = Continue
    \<and> (handed (monitor_step_rw L c (ReadOK rb h cm pr) now mcookie tcookie r) \<noteq> None)
        = (icmpCookie (protocol c) ident seq = mcookie \<or> \<not> rawSocket c \<and> GOOS L = ''linux'')
    \<and> (0 < sint (emitReport t) \<longrightarrow>
         (report (snd (receive L c \<lparr>pk_read = ReadOK rb h cm pr, pk_now = now, pk_during = []\<rparr> r t))
            \<noteq> report t)
          = (icmpCookie (protocol c) ident seq = cookie t \<or> \<not> rawSocket c \<and> GOOS L = ''linux''))"
proof -
  note b = monitor_step_parsed [OF assms(1,2)] dispatch_echo_reply [OF assms(3,4)]
  note a = monitor_step_rw_parsed [OF assms(1,2)] dispatch_rw_echo_reply [OF assms(3,4)]
  have 1: "ctl (monitor_step L c (ReadOK rb h cm pr) now mcookie r) = Continue" for mcookie
    by (simp add: b)
  have 2: "(handed (monitor_step L c (ReadOK rb h cm pr) now mcookie r) \<noteq> None)
        = (icmpCookie (protocol c) ident seq = mcookie \<or> \<not> rawSocket c \<and> GOOS L = ''linux'')"
    for mcookie
    by (auto simp add: b)
  have 3: "handed (monitor_step L c (ReadOK rb h cm pr) now mcookie r) \<noteq> None \<longrightarrow>
         handed (monitor_step L c (ReadOK rb h cm pr) now mcookie r)
           = Some (rep (monitor_step L c (ReadOK rb h cm pr) now mcookie r))"
    by (simp add: b)
  have 4: "ICMP (rep (monitor_step L c (ReadOK rb h cm pr) now mcookie r)) = Some m"
    by (simp add: b)
  have 5: "ctl (monitor_step_rw L c (ReadOK rb h cm pr) now mcookie tcookie r) = Continue"
    by (simp add: a)
  have 6: "(handed (monitor_step_rw L c (ReadOK rb h cm pr) now mcookie tcookie r) \<noteq> None)
        = (icmpCookie (protocol c) ident seq = mcookie \<or> \<not> rawSocket c \<and> GOOS L = ''linux'')"
    by (auto simp add: a)
  have 7: "0 < sint (emitReport t) \<longrightarrow>
         (report (snd (receive L c \<lparr>pk_read = ReadOK rb h cm pr, pk_now = now, pk_during = []\<rparr> r t))
            \<noteq> report t)
          = (icmpCookie (protocol c) ident seq = cookie t \<or> \<not> rawSocket c \<and> GOOS L = ''linux'')"
    using 2 [of "cookie t"]
    by (cases "handed (monitor_step L c (ReadOK rb h cm pr) now (cookie t) r)")
      (simp_all add: receive_def writeReport_def)
  from 1 2 3 4 5 6 7 show ?thesis
    by blast
qed

theorem echo_reply_emitted_witness:
  "handed (monitor_step (golang ''linux'') raw4 (raw_read echo_reply4) 7
      (icmpCookie 1 0xbeef 1) zero_Report) \<noteq> None
   \<and> handed (monitor_step (golang ''linux'') raw4 (raw_read echo_reply4) 7
      (icmpCookie 1 0xbeef 2) zero_Report) = None
   \<and> handed (monitor_step (golang ''linux'') dgram4
      (ReadOK echo_reply4 NoHeader NoControlMessage (UDPAddr [10, 0, 0, 9] 0 [])) 7
      (icmpCookie 1 0xbeef 2) zero_Report) \<noteq> None
   \<and> handed (monitor_step_rw (golang ''darwin'') dgram4
      (ReadOK echo_reply4 NoHeader NoControlMessage (UDPAddr [10, 0, 0, 9] 0 [])) 7
      (icmpCookie 1 0xbeef 2) 0 zero_Report) = None"
proof -
  let ?m = "\<lparr>Type = ipv4_ICMPTypeEchoReply, Code = 0, Checksum = 0, Body = Echo 0xbeef 1 [72, 73]\<rparr>"
  let ?u = "UDPAddr [10, 0, 0, 9] 0 []"
  have m: "Type ?m = ipv4_ICMPTypeEchoReply \<or> Type ?m = ipv6_ICMPTypeEchoReply"
    "Body ?m = Echo 0xbeef 1 [72, 73]"
    by simp_all
  have a: "ParseMessage (golang ''linux'') (protocol raw4) echo_reply4 = Inr ?m"
    "ParseMessage (golang ''linux'') (protocol dgram4) echo_reply4 = Inr ?m"
    "ParseMessage (golang ''darwin'') (protocol dgram4) echo_reply4 = Inr ?m"
    using parse_echo_reply4 by simp_all
  note t1 = echo_reply_emitted [where c = raw4 and pr = "IPAddr [10, 0, 0, 9] []"
      and L = "golang ''linux''" and rb = echo_reply4 and m = ?m and h = NoHeader
      and cm = NoControlMessage and now = 7 and mcookie = "icmpCookie 1 0xbeef 1"
      and r = zero_Report and tcookie = 0 and t = NewTester_maint, OF peerIP_raw4 a(1) m]
  note t2 = echo_reply_emitted [where c = raw4 and pr = "IPAddr [10, 0, 0, 9] []"
      and L = "golang ''linux''" and rb = echo_reply4 and m = ?m and h = NoHeader
      and cm = NoControlMessage and now = 7 and mcookie = "icmpCookie 1 0xbeef 2"
      and r = zero_Report and tcookie = 0 and t = NewTester_maint, OF peerIP_raw4 a(1) m]
  note t3 = echo_reply_emitted [where c = dgram4 and pr = ?u
      and L = "golang ''linux''" and rb = echo_reply4 and m = ?m and h = NoHeader
      and cm = NoControlMessage and now = 7 and mcookie = "icmpCookie 1 0xbeef 2"
      and r = zero_Report and tcookie = 0 and t = NewTester_maint, OF peerIP_dgram4 a(2) m]
  note t4 = echo_reply_emitted [where c = dgram4 and pr = ?u
      and L = "golang ''darwin''" and rb = echo_reply4 and m = ?m and h = NoHeader
      and cm = NoControlMessage and now = 7 and mcookie = "icmpCookie 1 0xbeef 2"
      and r = zero_Report and tcookie = 0 and t = NewTester_maint, OF peerIP_dgram4 a(3) m]
  have ne: "icmpCookie 1 0xbeef 1 \<noteq> icmpCookie 1 0xbeef 2"
    by (simp add: icmpCookie_eq_iff)
  from t1 have 1: "handed (monitor_step (golang ''linux'') raw4 (raw_read echo_reply4) 7
      (icmpCookie 1 0xbeef 1) zero_Report) \<noteq> None"
    by (simp add: raw_read_def)
  from t2 ne have 2: "handed (monitor_step (golang ''linux'') raw4 (raw_read echo_reply4) 7
      (icmpCookie 1 0xbeef 2) zero_Report) = None"
    by (simp add: raw_read_def)
  from t3 have 3: "handed (monitor_step (golang ''linux'') dgram4
      (ReadOK echo_reply4 NoHeader NoControlMessage (UDPAddr [10, 0, 0, 9] 0 [])) 7
      (icmpCookie 1 0xbeef 2) zero_Report) \<noteq> None"
    by simp
  from t4 ne have 4: "handed (monitor_step_rw (golang ''darwin'') dgram4
      (ReadOK echo_reply4 NoHeader NoControlMessage (UDPAddr [10, 0, 0, 9] 0 [])) 7
      (icmpCookie 1 0xbeef 2) 0 zero_Report) = None"
    by simp
  from 1 2 3 4 show ?thesis
    by simp
qed

section \<open>The report variable across iterations\<close>

text \<open>
  \<^verbatim>\<open>var r Report\<close> is declared before the \<^verbatim>\<open>for\<close> loop in both revisions, and
  no iteration resets it.  An iteration that accepts an Echo Reply leaves the
  fields \<open>Error\<close>, \<open>OrigHeader\<close> and \<open>OrigPayload\<close> as the earlier iterations
  left them.
\<close>

lemma echo_reply_keeps_fields:
  assumes "peerIP c pr = Some ip"
    and "ParseMessage L (protocol c) rb = Inr m"
    and "Type m = ipv4_ICMPTypeEchoReply \<or> Type m = ipv6_ICMPTypeEchoReply"
    and "Body m = Echo ident seq d"
  shows "Error (rep (monitor_step L c (ReadOK rb h cm pr) now mcookie r)) = Error r"
    and "OrigHeader (rep (monitor_step L c (ReadOK rb h cm pr) now mcookie r)) = OrigHeader r"
    and "OrigPayload (rep (monitor_step L c (ReadOK rb h cm pr) now mcookie r)) = OrigPayload r"
    and "Error (rep (monitor_step_rw L c (ReadOK rb h cm pr) now mcookie tcookie r)) = Error r"
    and "OrigHeader (rep (monitor_step_rw L c (ReadOK rb h cm pr) now mcookie tcookie r)) = OrigHeader r"
    and "OrigPayload (rep (monitor_step_rw L c (ReadOK rb h cm pr) now mcookie tcookie r)) = OrigPayload r"
  by (simp_all add: monitor_step_parsed [OF assms(1,2)] dispatch_echo_reply [OF assms(3,4)]
      monitor_step_rw_parsed [OF assms(1,2)] dispatch_rw_echo_reply [OF assms(3,4)])

text \<open>
  C2 says that the report handed to \<open>writeReport\<close> is initialised afresh for
  each packet and never retains a value set while an earlier packet was processed.
  The code at two packets: the first is too short to parse, and its report carries
  the parse error; the second is the Echo Reply the tester waits for, and its
  report carries the error of the first packet.  The first conjunct is the later
  revision run from the zero report, the second the earlier revision, its second
  iteration started from the variable the first iteration left.
\<close>

theorem stale_report:
  "report (snd (snd (monitor (golang ''linux'') raw4
      [Packet \<lparr>pk_read = raw_read [0, 0], pk_now = 1, pk_during = []\<rparr>,
       Packet \<lparr>pk_read = raw_read echo_reply4, pk_now = 2, pk_during = []\<rparr>] probed)))
    = [zero_Report\<lparr>Time := 1, Src := [10, 0, 0, 9], Error := Some (ErrorString ''message too short'')\<rparr>,
       zero_Report\<lparr>Time := 2, Src := [10, 0, 0, 9], Error := Some (ErrorString ''message too short''),
         ICMP := Some \<lparr>Type = ipv4_ICMPTypeEchoReply, Code = 0, Checksum = 0,
           Body = Echo 0xbeef 1 [72, 73]\<rparr>\<rparr>]
   \<and> handed (monitor_step_rw (golang ''linux'') raw4 (raw_read echo_reply4) 2 (icmpCookie 1 0xbeef 1)
        (icmpCookie 1 0xbeef 1)
        (rep (monitor_step_rw (golang ''linux'') raw4 (raw_read [0, 0]) 1 (icmpCookie 1 0xbeef 1)
           (icmpCookie 1 0xbeef 1) zero_Report)))
    = Some (zero_Report\<lparr>Time := 2, Src := [10, 0, 0, 9], Error := Some (ErrorString ''message too short''),
         ICMP := Some \<lparr>Type = ipv4_ICMPTypeEchoReply, Code = 0, Checksum = 0,
           Body = Echo 0xbeef 1 [72, 73]\<rparr>\<rparr>)"
  by (simp add: monitor_def receive_def step_short step_echo step_rw_short step_rw_echo
      writeReport_def)

section \<open>The cookie snapshot\<close>

text \<open>
  In the later revision every comparison uses the value loaded once: calls that
  store a new cookie during the iteration change neither the step nor what is
  sent on the channel.
\<close>

lemma foldl_sets_cookie:
  "list_all sets_cookie ks \<Longrightarrow>
     emitReport (foldl apply_call t ks) = emitReport t \<and> report (foldl apply_call t ks) = report t"
proof (induction ks arbitrary: t)
  case Nil
  then show ?case by simp
next
  case (Cons k ks)
  then show ?case
    by (cases k) (simp_all add: setICMPCookie_def setUDPCookie_def)
qed

lemma snapshot_decides:
  assumes "list_all sets_cookie ks"
  shows "fst (receive L c (p\<lparr>pk_during := ks\<rparr>) r t) = fst (receive L c (p\<lparr>pk_during := []\<rparr>) r t)"
    and "report (snd (receive L c (p\<lparr>pk_during := ks\<rparr>) r t))
       = report (snd (receive L c (p\<lparr>pk_during := []\<rparr>) r t))"
  using foldl_sets_cookie [OF assms, of t]
  by (simp_all add: receive_def Let_def writeReport_def split: option.split)

text \<open>
  C3 says that every cookie comparison of one packet's dispatch is made against the
  snapshot loaded for that packet, so that a later update of the cookie does not
  change the emit decision.  The earlier revision at a Time Exceeded message for
  the UDP probe with ports 50000 and 33434, the snapshot being the cookie of that
  probe: the report is handed over when the field still holds this cookie at line
  137, and dropped when \<open>Probe\<close> has stored the cookie of the next probe in
  between.
\<close>

theorem late_cookie_read_rw:
  "handed (monitor_step_rw (golang ''linux'') raw4 (raw_read (time_exceeded4 (inner4 @ inner_udp))) 7
      (udpCookie 17 50000 33434) (udpCookie 17 50000 33434) zero_Report) \<noteq> None
   \<and> handed (monitor_step_rw (golang ''linux'') raw4 (raw_read (time_exceeded4 (inner4 @ inner_udp))) 7
      (udpCookie 17 50000 33434) (udpCookie 17 50000 33435) zero_Report) = None"
  using udp_cookies_differ by (simp add: step_rw_inner_udp)

section \<open>Other inner protocols\<close>

text \<open>
  C6 says that an ICMP error whose inner IP header carries a protocol other than
  ICMPv4, ICMPv6 and UDP is reported unconditionally.  The code at a Time Exceeded
  message around an IPv4 header with protocol 6: the earlier revision, whose
  \<^verbatim>\<open>switch\<close> has no \<^verbatim>\<open>default\<close> case, hands nothing to \<open>writeReport\<close>,
  whatever the cookies; the later revision hands the report over.
\<close>

theorem inner_tcp_error_dropped_rw:
  "handed (monitor_step_rw (golang ''linux'') raw4
      (raw_read (time_exceeded4 (inner4_tcp @ inner_udp))) 7 mcookie tcookie r) = None
   \<and> handed (monitor_step (golang ''linux'') raw4
      (raw_read (time_exceeded4 (inner4_tcp @ inner_udp))) 7 mcookie r) \<noteq> None"
  by (simp add: step_inner_tcp step_rw_inner_tcp)

section \<open>The library model reads back the wire form of a header\<close>

lemma uint_byte_of: "0 \<le> x \<Longrightarrow> x < 256 \<Longrightarrow> uint (byte_of x) = x"
  by (simp add: byte_of_def uint_word_of_int)

lemma uint_and_0f: "uint ((w::byte) AND 0x0f) = uint w mod 16"
proof -
  have "(0x0f :: byte) = mask 4" by (simp add: mask_eq_exp_minus_1)
  then have "w AND 0x0f = take_bit 4 w" by (simp only: take_bit_eq_mask)
  then have "uint (w AND 0x0f) = take_bit 4 (uint w)" by (simp only: unsigned_take_bit_eq)
  then show ?thesis by (simp add: take_bit_eq_mod)
qed

lemma or_add: "0 \<le> y \<Longrightarrow> y < 2 ^ k \<Longrightarrow> push_bit k (x::int) OR y = x * 2 ^ k + y"
proof -
  assume y: "0 \<le> y" "y < 2 ^ k"
  then have t: "take_bit k y = y"
    by (simp add: take_bit_int_eq_self)
  have "push_bit k x OR take_bit k y = push_bit k x + take_bit k y"
    by (rule disjunctive_add [symmetric]) (auto simp add: bit_simps)
  with t show ?thesis by (simp add: push_bit_eq_mult)
qed

lemma length_marshal6: "valid6 h \<Longrightarrow> length (marshal6 h) = 40"
  by (simp add: marshal6_def valid6_def)


lemma nth_app_hd: "i < length xs \<Longrightarrow> (xs @ ys) ! i = xs ! i"
  by (simp add: nth_append)

lemma parse_marshal6:
  assumes "valid6 h"
  shows "ipv6_ParseHeader (marshal6 h @ b) = Inr h"
proof -
  from assms have v: "0 \<le> h6_Version h" "h6_Version h < 16" "0 \<le> h6_TrafficClass h"
    "h6_TrafficClass h < 256" "0 \<le> h6_FlowLabel h" "h6_FlowLabel h < 1048576"
    "0 \<le> h6_PayloadLen h" "h6_PayloadLen h < 65536" "0 \<le> h6_NextHeader h"
    "h6_NextHeader h < 256" "0 \<le> h6_HopLimit h" "h6_HopLimit h < 256"
    "length (h6_Src h) = 16" "length (h6_Dst h) = 16"
    by (simp_all add: valid6_def)
  let ?m = "marshal6 h @ b"
  have b0: "uint (?m ! 0) = h6_Version h * 16 + h6_TrafficClass h div 16"
    using v by (simp add: marshal6_def uint_byte_of)
  have b1: "uint (?m ! 1) = h6_TrafficClass h mod 16 * 16 + h6_FlowLabel h div 65536"
    using v by (simp add: marshal6_def uint_byte_of)
  have b2: "uint (?m ! 2) = h6_FlowLabel h div 256 mod 256"
    using v by (simp add: marshal6_def uint_byte_of)
  have b3: "uint (?m ! 3) = h6_FlowLabel h mod 256"
    using v by (simp add: marshal6_def uint_byte_of)
  have b4: "uint (?m ! 4) = h6_PayloadLen h div 256"
    using v by (simp add: marshal6_def uint_byte_of)
  have b5: "uint (?m ! 5) = h6_PayloadLen h mod 256"
    using v by (simp add: marshal6_def uint_byte_of)
  have b6: "uint (?m ! 6) = h6_NextHeader h"
    using v by (simp add: marshal6_def uint_byte_of)
  have b7: "uint (?m ! 7) = h6_HopLimit h"
    using v by (simp add: marshal6_def uint_byte_of)
  have src: "take 16 (drop 8 ?m) = h6_Src h" and dst: "take 16 (drop 24 ?m) = h6_Dst h"
    using v by (simp_all add: marshal6_def)
  have len: "\<not> length ?m < 40"
    using v by (simp add: marshal6_def)
  have f1: "drop_bit 4 (uint (?m ! 0)) = h6_Version h"
    using v unfolding b0 by (simp add: drop_bit_eq_div)
  have f2: "push_bit 4 (uint (?m ! 0 AND 0x0f)) OR drop_bit 4 (uint (?m ! 1)) = h6_TrafficClass h"
  proof -
    have "drop_bit 4 (uint (?m ! 1)) = h6_TrafficClass h mod 16"
      using v unfolding b1 by (simp add: drop_bit_eq_div)
    moreover have "uint (?m ! 0 AND 0x0f) = h6_TrafficClass h div 16"
      using v unfolding uint_and_0f b0 by simp
    ultimately show ?thesis
      using or_add [of "h6_TrafficClass h mod 16" 4 "h6_TrafficClass h div 16"] by simp
  qed
  have f3: "push_bit 16 (uint (?m ! 1 AND 0x0f)) OR push_bit 8 (uint (?m ! 2)) OR uint (?m ! 3)
      = h6_FlowLabel h"
  proof -
    have a: "uint (?m ! 1 AND 0x0f) = h6_FlowLabel h div 65536"
      using v unfolding uint_and_0f b1 by simp
    have "push_bit 16 (h6_FlowLabel h div 65536) OR push_bit 8 (h6_FlowLabel h div 256 mod 256)
        OR h6_FlowLabel h mod 256
      = push_bit 8 (push_bit 8 (h6_FlowLabel h div 65536) OR h6_FlowLabel h div 256 mod 256)
        OR h6_FlowLabel h mod 256"
      by (simp add: push_bit_or push_bit_push_bit or.assoc)
    also have "\<dots> = (h6_FlowLabel h div 65536 * 256 + h6_FlowLabel h div 256 mod 256) * 256
        + h6_FlowLabel h mod 256"
      using or_add [of "h6_FlowLabel h div 256 mod 256" 8 "h6_FlowLabel h div 65536"]
        or_add [of "h6_FlowLabel h mod 256" 8
          "h6_FlowLabel h div 65536 * 256 + h6_FlowLabel h div 256 mod 256"]
      by simp
    also have "\<dots> = h6_FlowLabel h"
    proof -
      have "h6_FlowLabel h div 65536 = h6_FlowLabel h div 256 div 256"
        by (simp add: zdiv_zmult2_eq)
      then have "h6_FlowLabel h div 65536 * 256 + h6_FlowLabel h div 256 mod 256
          = h6_FlowLabel h div 256"
        by (simp only: div_mult_mod_eq)
      then show ?thesis
        by (simp only: div_mult_mod_eq)
    qed
    finally show ?thesis
      unfolding a b2 b3 .
  qed
  have f4: "be16 ?m 4 = h6_PayloadLen h"
    using or_add [of "h6_PayloadLen h mod 256" 8 "h6_PayloadLen h div 256"]
    unfolding be16_def by (simp add: b4 b5)
  show ?thesis
    unfolding ipv6_ParseHeader_def
    by (simp only: len if_False f1 f2 f3 f4 b6 b7 src dst) simp
qed

lemma be16_eq:
  assumes "uint (b ! i) = x div 256" and "uint (b ! (i + 1)) = x mod 256"
  shows "be16 b i = x"
  using or_add [of "x mod 256" 8 "x div 256"] assms
  by (simp add: be16_def)

lemma flags_of: "0 \<le> x \<Longrightarrow> drop_bit 13 ((x::int) AND 0xe000) = x div 8192 mod 8"
proof -
  have e: "(0xe000 :: int) = push_bit 13 (mask 3)"
    by (simp add: mask_eq_exp_minus_1 push_bit_eq_mult)
  have "drop_bit 13 (x AND push_bit 13 (mask 3)) = take_bit 3 (drop_bit 13 x)"
    by (rule bit_eqI) (auto simp add: bit_simps)
  then show ?thesis
    unfolding e by (simp add: take_bit_eq_mod drop_bit_eq_div)
qed

lemma fragoff_of: "(x::int) AND 0x1fff = x mod 8192"
proof -
  have e: "(0x1fff :: int) = mask 13"
    by (simp add: mask_eq_exp_minus_1)
  show ?thesis
    unfolding e by (simp add: take_bit_eq_mod flip: take_bit_eq_mask)
qed

lemma uint_drop_bit_4: "uint (drop_bit 4 (w::byte)) = uint w div 16"
  by (simp add: drop_bit_eq_div uint_div_distrib)

lemma length_marshal4: "valid4 h \<Longrightarrow> length (marshal4 h) = 20 + length (h4_Options h)"
  by (simp add: marshal4_def valid4_def)


lemma parse_marshal4:
  assumes "valid4 h"
  shows "icmp_ParseIPv4Header (marshal4 h @ b) = Inr h"
proof -
  let ?n = "length (h4_Options h)"
  let ?m = "marshal4 h @ b"
  from assms have v: "0 \<le> h4_Version h" "h4_Version h < 16"
    "h4_Len h = 20 + int ?n" "?n mod 4 = 0" "?n \<le> 40"
    "0 \<le> h4_TOS h" "h4_TOS h < 256" "0 \<le> h4_TotalLen h" "h4_TotalLen h < 65536"
    "0 \<le> h4_ID h" "h4_ID h < 65536" "0 \<le> h4_Flags h" "h4_Flags h < 8"
    "0 \<le> h4_FragOff h" "h4_FragOff h < 8192" "0 \<le> h4_TTL h" "h4_TTL h < 256"
    "0 \<le> h4_Protocol h" "h4_Protocol h < 256" "0 \<le> h4_Checksum h" "h4_Checksum h < 65536"
    "length (h4_Src h) = 16" "take 12 (h4_Src h) = v4InV6Prefix"
    "length (h4_Dst h) = 16" "take 12 (h4_Dst h) = v4InV6Prefix"
    by (simp_all add: valid4_def)
  have l4: "h4_Len h div 4 < 16" "0 \<le> h4_Len h div 4" "h4_Len h div 4 * 4 = h4_Len h"
    using v(3,4,5) by presburger+
  have ff: "0 \<le> h4_Flags h * 8192 + h4_FragOff h" "h4_Flags h * 8192 + h4_FragOff h < 65536"
    using v(12,13,14,15) by simp_all
  have b0: "uint (?m ! 0) = h4_Version h * 16 + h4_Len h div 4"
    using v l4 by (simp add: marshal4_def uint_byte_of)
  have len: "\<not> length ?m < 20"
    using v(22,24) by (simp add: marshal4_def)
  have hl: "nat (push_bit 2 (uint (?m ! 0 AND 0x0f))) = 20 + ?n"
    using v l4 unfolding uint_and_0f b0 by (simp add: push_bit_eq_mult)
  have fits: "\<not> 20 + ?n > length ?m"
    using v by (simp add: marshal4_def)
  have ver: "uint (drop_bit 4 (?m ! 0)) = h4_Version h"
    using v l4 unfolding uint_drop_bit_4 b0 by simp
  have tos: "uint (?m ! 1) = h4_TOS h"
    using v by (simp add: marshal4_def uint_byte_of)
  have tl: "be16 ?m 2 = h4_TotalLen h"
    using v by (intro be16_eq) (simp_all add: marshal4_def uint_byte_of)
  have ident: "be16 ?m 4 = h4_ID h"
    using v by (intro be16_eq) (simp_all add: marshal4_def uint_byte_of)
  have fo: "be16 ?m 6 = h4_Flags h * 8192 + h4_FragOff h"
    using ff by (intro be16_eq) (simp_all add: marshal4_def uint_byte_of)
  have flags: "drop_bit 13 (be16 ?m 6 AND 0xe000) = h4_Flags h"
    using v unfolding fo flags_of [OF ff(1)] by simp
  have frag: "be16 ?m 6 AND 0x1fff = h4_FragOff h"
    using v unfolding fo fragoff_of by simp
  have ttl: "uint (?m ! 8) = h4_TTL h"
    using v by (simp add: marshal4_def uint_byte_of)
  have proto: "uint (?m ! 9) = h4_Protocol h"
    using v by (simp add: marshal4_def uint_byte_of)
  have cs: "be16 ?m 10 = h4_Checksum h"
    using v by (intro be16_eq) (simp_all add: marshal4_def uint_byte_of)
  have src: "v4InV6Prefix @ take 4 (drop 12 ?m) = h4_Src h"
  proof -
    have "take 4 (drop 12 ?m) = drop 12 (h4_Src h)"
      using v by (simp add: marshal4_def)
    with v(23) append_take_drop_id [of 12 "h4_Src h"] show ?thesis
      by simp
  qed
  have dst: "v4InV6Prefix @ take 4 (drop 16 ?m) = h4_Dst h"
  proof -
    have "take 4 (drop 16 ?m) = drop 12 (h4_Dst h)"
      using v by (simp add: marshal4_def)
    with v(25) append_take_drop_id [of 12 "h4_Dst h"] show ?thesis
      by simp
  qed
  have opts: "take (20 + ?n - 20) (drop 20 ?m) = h4_Options h"
    using v by (simp add: marshal4_def)
  show ?thesis
    unfolding icmp_ParseIPv4Header_def Let_def hl
    by (simp only: len fits if_False ver tos tl ident flags frag ttl proto cs src dst opts)
      (simp add: v(3))
qed

lemma ParseIPv4Header_golang: "ParseIPv4Header (golang os) = icmp_ParseIPv4Header"
  by (simp add: golang_def)

lemma ParseHeader_golang: "ParseHeader (golang os) = ipv6_ParseHeader"
  by (simp add: golang_def)

lemma valid_samples: "valid4 inner4_header" "valid6 inner6_header"
  by (simp_all add: valid4_def valid6_def inner4_header_def inner6_header_def v4InV6Prefix_def)

lemma marshal_samples: "marshal4 inner4_header = inner4" "marshal6 inner6_header = inner6"
  by (simp_all add: marshal4_def marshal6_def inner4_header_def inner6_header_def inner4_def
      inner6_def byte_of_def v4InV6Prefix_def)

section \<open>The error parser\<close>

text \<open>
  C4 (as stated): every ICMP error message whose data is shorter than the inner IP
  header, its options and 8 bytes fails with the error "ICMP error message too
  short".  Ten bytes of an IPv4 header are too few for the header itself:
  \<open>parseICMPError\<close> returns the error of the header parser instead.
\<close>

theorem parseICMPError_short_counterexample:
  "length (bodyData (DstUnreach (take 10 inner4))) < ipv4_HeaderLen + 8
   \<and> parseICMPError (golang ''linux'')
        \<lparr>Type = ipv4_ICMPTypeDestinationUnreachable, Code = 1, Checksum = 0,
         Body = DstUnreach (take 10 inner4)\<rparr>
       = Inl (ErrorString ''header too short'')
   \<and> ErrorString ''header too short'' \<noteq> ICMPErrorTooShort ipv4_ICMPTypeDestinationUnreachable 1"
  by (simp add: parseICMPError_def parse_inner4_cut)

text \<open>
  C4 (amended): when the header parser accepts the data (as the header \<open>h\<close>) and
  the data is shorter than the header length plus the length of the options of
  \<open>h\<close> plus 8 (IPv4), or shorter than 40 plus 8 (IPv6), \<open>parseICMPError\<close> fails
  with "ICMP error message too short" and returns no header and no payload; when
  the header parser rejects the data, \<open>parseICMPError\<close> fails with the header
  parser's error.
\<close>

theorem parseICMPError_short:
  "(Protocol (Type m) = ianaProtocolICMP \<and> ParseIPv4Header L (bodyData (Body m)) = Inr h
      \<and> length (bodyData (Body m)) < ipv4_HeaderLen + length (h4_Options h) + 8 \<longrightarrow>
      parseICMPError L m = Inl (ICMPErrorTooShort (Type m) (Code m)))
   \<and> (Protocol (Type m) = ianaProtocolIPv6ICMP \<and> ParseHeader L (bodyData (Body m)) = Inr g
      \<and> length (bodyData (Body m)) < ipv6_HeaderLen + 8 \<longrightarrow>
      parseICMPError L m = Inl (ICMPErrorTooShort (Type m) (Code m)))
   \<and> (Protocol (Type m) = ianaProtocolICMP \<and> ParseIPv4Header L (bodyData (Body m)) = Inl e \<longrightarrow>
      parseICMPError L m = Inl e)
   \<and> (Protocol (Type m) = ianaProtocolIPv6ICMP \<and> ParseHeader L (bodyData (Body m)) = Inl e \<longrightarrow>
      parseICMPError L m = Inl e)"
  by (simp add: parseICMPError_def)

theorem parseICMPError_short_witness:
  "parseICMPError (golang ''linux'')
      \<lparr>Type = ipv4_ICMPTypeDestinationUnreachable, Code = 1, Checksum = 0, Body = DstUnreach inner4\<rparr>
     = Inl (ICMPErrorTooShort ipv4_ICMPTypeDestinationUnreachable 1)
   \<and> parseICMPError (golang ''linux'')
      \<lparr>Type = ipv6_ICMPTypeDestinationUnreachable, Code = 4, Checksum = 0, Body = DstUnreach inner6\<rparr>
     = Inl (ICMPErrorTooShort ipv6_ICMPTypeDestinationUnreachable 4)
   \<and> parseICMPError (golang ''linux'')
      \<lparr>Type = ipv4_ICMPTypeTimeExceeded, Code = 0, Checksum = 0, Body = TimeExceeded (take 10 inner4)\<rparr>
     = Inl (ErrorString ''header too short'')"
  using parseICMPError_short [where L = "golang ''linux''" and h = inner4_header
      and m = "\<lparr>Type = ipv4_ICMPTypeDestinationUnreachable, Code = 1, Checksum = 0,
        Body = DstUnreach inner4\<rparr>"]
    parseICMPError_short [where L = "golang ''linux''" and g = inner6_header
      and m = "\<lparr>Type = ipv6_ICMPTypeDestinationUnreachable, Code = 4, Checksum = 0,
        Body = DstUnreach inner6\<rparr>"]
    parseICMPError_short [where L = "golang ''linux''" and e = "ErrorString ''header too short''"
      and m = "\<lparr>Type = ipv4_ICMPTypeTimeExceeded, Code = 0, Checksum = 0,
        Body = TimeExceeded (take 10 inner4)\<rparr>"]
  by (simp add: parse_inner4_alone parse_inner6_alone parse_inner4_cut)

text \<open>
  C5: for a valid IPv4 or IPv6 header \<open>h\<close> followed by at least 8 inner bytes
  \<open>b\<close>, \<open>parseICMPError\<close> on the Destination Unreachable message whose data is
  the bytes of \<open>h\<close> followed by \<open>b\<close> returns the header \<open>h\<close> and the payload
  \<open>b\<close>.  First for any library and any bytes \<open>hb\<close> from which, followed by
  \<open>b\<close>, the library's parser reads \<open>h\<close>, \<open>hb\<close> having the header's length (20
  plus the options for IPv4, 40 for IPv6); then for the wire form of every valid
  header under the library model.
\<close>

theorem parseICMPError_roundtrip:
  assumes "8 \<le> length b"
  shows "(Type m = ipv4_ICMPTypeDestinationUnreachable \<and> Body m = DstUnreach (hb @ b)
        \<and> ParseIPv4Header L (hb @ b) = Inr h \<and> length hb = ipv4_HeaderLen + length (h4_Options h) \<longrightarrow>
        parseICMPError L m = Inr (IPv4Header h, b))
    \<and> (Type m = ipv6_ICMPTypeDestinationUnreachable \<and> Body m = DstUnreach (hb @ b)
        \<and> ParseHeader L (hb @ b) = Inr g \<and> length hb = ipv6_HeaderLen \<longrightarrow>
        parseICMPError L m = Inr (IPv6Header g, b))
    \<and> (valid4 h \<longrightarrow>
        parseICMPError (golang os)
          \<lparr>Type = ipv4_ICMPTypeDestinationUnreachable, Code = code, Checksum = csum,
           Body = DstUnreach (marshal4 h @ b)\<rparr> = Inr (IPv4Header h, b))
    \<and> (valid6 g \<longrightarrow>
        parseICMPError (golang os)
          \<lparr>Type = ipv6_ICMPTypeDestinationUnreachable, Code = code, Checksum = csum,
           Body = DstUnreach (marshal6 g @ b)\<rparr> = Inr (IPv6Header g, b))"
proof -
  have 1: "Type m = ipv4_ICMPTypeDestinationUnreachable \<and> Body m = DstUnreach (hb @ b)
        \<and> ParseIPv4Header L (hb @ b) = Inr h \<and> length hb = ipv4_HeaderLen + length (h4_Options h) \<longrightarrow>
        parseICMPError L m = Inr (IPv4Header h, b)" for m hb L h
    using assms by (simp add: parseICMPError_def)
  have 2: "Type m = ipv6_ICMPTypeDestinationUnreachable \<and> Body m = DstUnreach (hb @ b)
        \<and> ParseHeader L (hb @ b) = Inr g \<and> length hb = ipv6_HeaderLen \<longrightarrow>
        parseICMPError L m = Inr (IPv6Header g, b)" for m hb L g
    using assms by (simp add: parseICMPError_def)
  have 3: "parseICMPError (golang os)
          \<lparr>Type = ipv4_ICMPTypeDestinationUnreachable, Code = code, Checksum = csum,
           Body = DstUnreach (marshal4 h @ b)\<rparr> = Inr (IPv4Header h, b)" if "valid4 h"
    using 1 [of "\<lparr>Type = ipv4_ICMPTypeDestinationUnreachable, Code = code, Checksum = csum,
           Body = DstUnreach (marshal4 h @ b)\<rparr>" "marshal4 h" "golang os" h]
      parse_marshal4 [OF that, of b] length_marshal4 [OF that]
    by (simp add: ParseIPv4Header_golang)
  have 4: "parseICMPError (golang os)
          \<lparr>Type = ipv6_ICMPTypeDestinationUnreachable, Code = code, Checksum = csum,
           Body = DstUnreach (marshal6 g @ b)\<rparr> = Inr (IPv6Header g, b)" if "valid6 g"
    using 2 [of "\<lparr>Type = ipv6_ICMPTypeDestinationUnreachable, Code = code, Checksum = csum,
           Body = DstUnreach (marshal6 g @ b)\<rparr>" "marshal6 g" "golang os" g]
      parse_marshal6 [OF that, of b] length_marshal6 [OF that]
    by (simp add: ParseHeader_golang)
  from 1 2 3 4 show ?thesis
    by blast
qed

theorem parseICMPError_roundtrip_witness:
  "parseICMPError (golang ''linux'')
      \<lparr>Type = ipv4_ICMPTypeDestinationUnreachable, Code = 3, Checksum = 0,
       Body = DstUnreach (inner4 @ inner_udp)\<rparr>
     = Inr (IPv4Header inner4_header, inner_udp)
   \<and> parseICMPError (golang ''linux'')
      \<lparr>Type = ipv6_ICMPTypeDestinationUnreachable, Code = 4, Checksum = 0,
       Body = DstUnreach (inner6 @ inner_udp)\<rparr>
     = Inr (IPv6Header inner6_header, inner_udp)"
  using parseICMPError_roundtrip [where os = "''linux''" and b = inner_udp
      and h = inner4_header and code = 3 and csum = 0 and g = inner6_header]
    parseICMPError_roundtrip [where os = "''linux''" and b = inner_udp
      and h = inner4_header and code = 4 and csum = 0 and g = inner6_header]
  by (simp add: valid_samples marshal_samples)

section \<open>Emission gating\<close>

lemma writeReport_report:
  "report (writeReport t r) = (if 0 < sint (emitReport t) then report t @ [r] else report t)"
  by (simp add: writeReport_def)

lemma writeReport_emitReport: "emitReport (writeReport t r) = emitReport t"
  by (simp add: writeReport_def)

lemma apply_call_stopped:
  "emitReport t = 0 \<Longrightarrow> k \<noteq> CallStartReport \<Longrightarrow>
     emitReport (apply_call t k) = 0 \<and> report (apply_call t k) = report t"
  by (cases k) (simp_all add: StopReport_def setICMPCookie_def setUDPCookie_def)

lemma foldl_apply_call_stopped:
  "emitReport t = 0 \<Longrightarrow> CallStartReport \<notin> set ks \<Longrightarrow>
     emitReport (foldl apply_call t ks) = 0 \<and> report (foldl apply_call t ks) = report t"
proof (induction ks arbitrary: t)
  case Nil
  then show ?case by simp
next
  case (Cons k ks)
  from Cons.prems have k: "k \<noteq> CallStartReport" and ks: "CallStartReport \<notin> set ks"
    by auto
  from apply_call_stopped [OF Cons.prems(1) k]
  have "emitReport (apply_call t k) = 0" and r: "report (apply_call t k) = report t"
    by simp_all
  from Cons.IH [OF this(1) ks] r show ?case
    by simp
qed

lemma receive_stopped:
  assumes "emitReport t = 0" and "CallStartReport \<notin> set (pk_during p)"
  shows "emitReport (snd (receive L c p r t)) = 0 \<and> report (snd (receive L c p r t)) = report t"
proof -
  let ?t1 = "foldl apply_call t (pk_during p)"
  from foldl_apply_call_stopped [OF assms]
  have e: "emitReport ?t1 = 0" and r: "report ?t1 = report t"
    by simp_all
  show ?thesis
    by (cases "handed (monitor_step L c (pk_read p) (pk_now p) (cookie t) r)")
      (simp_all add: receive_def Let_def e r writeReport_def)
qed

lemma monitor_loop_stopped:
  "emitReport t = 0 \<Longrightarrow> \<not> list_ex starts es \<Longrightarrow>
     report (snd (snd (monitor_loop L c es r t))) = report t"
proof (induction es arbitrary: r t)
  case Nil
  then show ?case by simp
next
  case (Cons e es)
  show ?case
  proof (cases e)
    case (Call k)
    with Cons.prems have k: "k \<noteq> CallStartReport" and es: "\<not> list_ex starts es"
      by simp_all
    from apply_call_stopped [OF Cons.prems(1) k] Cons.IH [OF _ es] Call
    show ?thesis by simp
  next
    case (Packet p)
    with Cons.prems have p: "CallStartReport \<notin> set (pk_during p)" and es: "\<not> list_ex starts es"
      by simp_all
    obtain s t' where st: "receive L c p r t = (s, t')"
      by (cases "receive L c p r t")
    from receive_stopped [OF Cons.prems(1) p, of L c r] st
    have e: "emitReport t' = 0" and r: "report t' = report t"
      by simp_all
    from Cons.IH [OF e es] r Packet st show ?thesis
      by (cases "ctl s") simp_all
  qed
qed

text \<open>
  C8: the maint literal of \<open>NewTester\<close> has emission enabled; \<open>writeReport\<close>
  sends on the channel if and only if the emit flag is set when it is called;
  after \<open>StopReport\<close>, a run of the receiver in which nobody calls
  \<open>StartReport\<close> sends nothing, whatever packets arrive; \<open>StartReport\<close> restores
  emission.  The same holds for the boolean flag of the earlier revision.
\<close>

theorem emission_gating:
  "0 < sint (emitReport NewTester_maint)
   \<and> report (writeReport NewTester_maint r) = report NewTester_maint @ [r]
   \<and> (report (writeReport t r) = report t @ [r]) = (0 < sint (emitReport t))
   \<and> (report (writeReport t r) = report t) = (\<not> 0 < sint (emitReport t))
   \<and> report (writeReport (StopReport t) r) = report t
   \<and> (\<not> list_ex starts es \<longrightarrow>
        report (snd (snd (monitor_loop L c es r0 (StopReport t)))) = report t)
   \<and> report (writeReport (StartReport (StopReport t)) r) = report t @ [r]
   \<and> emitReport_rw NewTester_maint_rw
   \<and> (report_rw (writeReport_rw u r) = report_rw u @ [r]) = emitReport_rw u
   \<and> report_rw (writeReport_rw (StopReport_rw u) r) = report_rw u
   \<and> report_rw (writeReport_rw (StartReport_rw (StopReport_rw u)) r) = report_rw u @ [r]"
proof -
  have "emitReport (StopReport t) = 0" "report (StopReport t) = report t"
    by (simp_all add: StopReport_def)
  with monitor_loop_stopped [of "StopReport t" es L c r0]
  have "\<not> list_ex starts es \<longrightarrow>
        report (snd (snd (monitor_loop L c es r0 (StopReport t)))) = report t"
    by simp
  then show ?thesis
    by (simp add: writeReport_report NewTester_maint_def StopReport_def StartReport_def
        NewTester_maint_rw_def writeReport_rw_def StopReport_rw_def StartReport_rw_def)
qed

theorem emission_gating_witness:
  "report (snd (snd (monitor_loop (golang ''linux'') raw4
      [Packet \<lparr>pk_read = raw_read echo_reply4, pk_now = 2, pk_during = []\<rparr>]
      zero_Report (StopReport probed)))) = []
   \<and> report (snd (snd (monitor_loop (golang ''linux'') raw4
      [Call CallStartReport, Packet \<lparr>pk_read = raw_read echo_reply4, pk_now = 2, pk_during = []\<rparr>]
      zero_Report (StopReport probed))))
     = [zero_Report\<lparr>Time := 2, Src := [10, 0, 0, 9],
         ICMP := Some \<lparr>Type = ipv4_ICMPTypeEchoReply, Code = 0, Checksum = 0,
           Body = Echo 0xbeef 1 [72, 73]\<rparr>\<rparr>]"
proof -
  have "\<not> list_ex starts [Packet \<lparr>pk_read = raw_read echo_reply4, pk_now = 2, pk_during = []\<rparr>]"
    by simp
  with emission_gating [where t = probed and L = "golang ''linux''" and c = raw4
      and ?r0.0 = zero_Report
      and es = "[Packet \<lparr>pk_read = raw_read echo_reply4, pk_now = 2, pk_during = []\<rparr>]"]
  have 1: "report (snd (snd (monitor_loop (golang ''linux'') raw4
      [Packet \<lparr>pk_read = raw_read echo_reply4, pk_now = 2, pk_during = []\<rparr>]
      zero_Report (StopReport probed)))) = []"
    by simp
  have 2: "report (snd (snd (monitor_loop (golang ''linux'') raw4
      [Call CallStartReport, Packet \<lparr>pk_read = raw_read echo_reply4, pk_now = 2, pk_during = []\<rparr>]
      zero_Report (StopReport probed))))
     = [zero_Report\<lparr>Time := 2, Src := [10, 0, 0, 9],
         ICMP := Some \<lparr>Type = ipv4_ICMPTypeEchoReply, Code = 0, Checksum = 0,
           Body = Echo 0xbeef 1 [72, 73]\<rparr>\<rparr>]"
    by (simp add: receive_def step_echo writeReport_def StartReport_def StopReport_def)
  from 1 2 show ?thesis
    by simp
qed

section \<open>Reachability\<close>

lemma reachable_multicast:
  "target tgt = Some (ipn, ip) \<Longrightarrow> IsMulticast N ip \<Longrightarrow> reachable N tgt fm"
  by (simp add: reachable_def)

lemma reachable_prefix:
  "\<not> IsMulticast N ip \<Longrightarrow> peer fm = Some fip \<Longrightarrow>
     reachable N (IPNet ip msk) fm = Contains N ip msk fip"
  by (simp add: reachable_def)

lemma reachable_unicast:
  "target tgt = Some (None, ip) \<Longrightarrow> \<not> IsMulticast N ip \<Longrightarrow> peer fm = Some fip \<Longrightarrow>
     reachable N tgt fm = Equal N ip fip"
  by (simp add: reachable_def)

text \<open>
  C9: \<open>reachable\<close> returns true whenever the target's IP is multicast; otherwise,
  for a peer that carries an IP (a TCP, UDP or IP address), it returns for a prefix
  (\<open>IPNet\<close>) whether the prefix contains the peer's IP, and for any other target
  whether the target's IP equals the peer's IP; it returns false for a target or a
  peer of any other address type.
\<close>

theorem reachable_cases:
  "(target tgt = Some (ipn, ip) \<and> IsMulticast N ip \<longrightarrow> reachable N tgt fm)
   \<and> (tgt = IPNet ip msk \<and> \<not> IsMulticast N ip \<and> peer fm = Some fip \<longrightarrow>
        reachable N tgt fm = Contains N ip msk fip)
   \<and> (target tgt = Some (None, ip) \<and> \<not> IsMulticast N ip \<and> peer fm = Some fip \<longrightarrow>
        reachable N tgt fm = Equal N ip fip)
   \<and> (target tgt = None \<or> target tgt = Some (ipn, ip) \<and> \<not> IsMulticast N ip \<and> peer fm = None \<longrightarrow>
        \<not> reachable N tgt fm)"
  by (auto simp add: reachable_def)

lemma go_net_multicast: "IsMulticast go_net [224, 0, 0, 251]"
  by (simp add: go_net_def IP_IsMulticast_def IP_To4_def)
lemma go_net_unicast: "\<not> IsMulticast go_net [192, 168, 0, 0]" "\<not> IsMulticast go_net [10, 0, 0, 1]"
  by (simp_all add: go_net_def IP_IsMulticast_def IP_To4_def)
lemma go_net_contains: "Contains go_net [192, 168, 0, 0] [255, 255, 0, 0] [192, 168, 3, 4]"
  by (simp add: go_net_def IPNet_Contains_def networkNumberAndMask_def IP_To4_def upt_rec[of 0] upt_rec[of "Suc 0"] upt_rec[of 1] upt_rec[of 2] upt_rec[of 3] upt_rec[of 4])
lemma go_net_differ: "\<not> Equal go_net [10, 0, 0, 1] [10, 0, 0, 2]"
  by (simp add: go_net_def IP_Equal_def)

theorem reachable_cases_witness:
  "reachable go_net (IPAddr [224, 0, 0, 251] '''') (IPAddr [10, 0, 0, 7] '''')
   \<and> reachable go_net (IPNet [192, 168, 0, 0] [255, 255, 0, 0]) (UDPAddr [192, 168, 3, 4] 7 '''')
   \<and> \<not> reachable go_net (TCPAddr [10, 0, 0, 1] 80 '''') (IPAddr [10, 0, 0, 2] '''')
   \<and> \<not> reachable go_net OtherAddr (IPAddr [10, 0, 0, 2] '''')"
  using reachable_cases [of "IPAddr [224, 0, 0, 251] ''''" None "[224, 0, 0, 251]" go_net
      "IPAddr [10, 0, 0, 7] ''''"]
    reachable_cases [of "IPNet [192, 168, 0, 0] [255, 255, 0, 0]" None "[192, 168, 0, 0]" go_net
      "UDPAddr [192, 168, 3, 4] 7 ''''" "[255, 255, 0, 0]" "[192, 168, 3, 4]"]
    reachable_cases [of "TCPAddr [10, 0, 0, 1] 80 ''''" None "[10, 0, 0, 1]" go_net
      "IPAddr [10, 0, 0, 2] ''''" _ "[10, 0, 0, 2]"]
    reachable_cases [of OtherAddr None "[]" go_net "IPAddr [10, 0, 0, 2] ''''"]
    go_net_multicast go_net_unicast go_net_contains go_net_differ
  by simp

end
